theory Spec2Isabelle
  imports Complex_Main
begin

section \<open>Numbers and errors\<close>

text \<open>
  The program computes on Python and numpy floats. Finite floats are modelled as
  \<^typ>\<open>real\<close> numbers; a missing sample (pandas' NaN in a series) is \<open>None\<close>.
  Where the code itself produces or compares against an infinity or a NaN
  (\<open>float('inf')\<close>, numpy's division by zero), the value is an \<open>xfloat\<close>.
  Arithmetic is exact, except for the two accumulations whose rounding decides a
  property: the running balance (\<open>self.current_balance += pnl\<close>) and the sum of the
  PnL (\<open>sum(t['pnl'] for t in self.trades)\<close>) add in binary64.
\<close>

datatype py_error = ZeroDivisionError | ValueError | IndexError | TypeError

datatype xfloat = Fin real | PosInf | NegInf | NaN

text \<open>numpy's float64 division: a zero divisor gives an infinity or NaN, never an exception.\<close>

definition fdiv :: "real \<Rightarrow> real \<Rightarrow> xfloat" where
  "fdiv a b = (if b \<noteq> 0 then Fin (a / b)
               else if 0 < a then PosInf else if a < 0 then NegInf else NaN)"

fun xabs :: "xfloat \<Rightarrow> xfloat" where
  "xabs (Fin r) = Fin \<bar>r\<bar>"
| "xabs PosInf = PosInf"
| "xabs NegInf = PosInf"
| "xabs NaN = NaN"

text \<open>\<open>a < b\<close> on floats: every comparison with NaN is false.\<close>

fun xless :: "xfloat \<Rightarrow> xfloat \<Rightarrow> bool" where
  "xless (Fin a) (Fin b) = (a < b)"
| "xless (Fin a) PosInf = True"
| "xless NegInf (Fin b) = True"
| "xless NegInf PosInf = True"
| "xless _ _ = False"

text \<open>\<open>round(x, 2)\<close>: to the nearest multiple of 0.01, a tie going to the even neighbour.\<close>

definition round_half_even :: "real \<Rightarrow> int" where
  "round_half_even x =
     (let f = \<lfloor>x\<rfloor>; d = x - of_int f
      in if d < 1/2 then f else if 1/2 < d then f + 1 else if even f then f else f + 1)"

definition round2 :: "real \<Rightarrow> real" where
  "round2 x = of_int (round_half_even (x * 100)) / 100"

text \<open>
  Binary64 addition: the exact sum rounded to the nearest number with a 53-bit
  significand, a tie going to the even significand. For a number in the binade
  \<open>2^e \<le> |x| < 2^(e+1)\<close> the spacing of the representable numbers is \<open>2^(e-52)\<close>.
  The exponent range of the format (overflow, subnormal numbers) is not modelled.
\<close>

definition b64_round :: "real \<Rightarrow> real" where
  "b64_round x =
     (if x = 0 then 0
      else
        (let e = \<lfloor>log 2 \<bar>x\<bar>\<rfloor>;
             q = 2 powr (of_int e - 52)
         in of_int (round_half_even (x / q)) * q))"

definition b64_add :: "real \<Rightarrow> real \<Rightarrow> real" where
  "b64_add a b = b64_round (a + b)"

text \<open>\<open>sum\<close> over numpy floats: addition from the left, starting from 0.\<close>

definition float_sum :: "real list \<Rightarrow> real" where
  "float_sum xs = foldl b64_add 0 xs"

text \<open>\<open>sub in s\<close> on strings.\<close>

fun starts_with :: "string \<Rightarrow> string \<Rightarrow> bool" where
  "starts_with [] s = True"
| "starts_with (c # cs) [] = False"
| "starts_with (c # cs) (d # ds) = (c = d \<and> starts_with cs ds)"

fun contains :: "string \<Rightarrow> string \<Rightarrow> bool" where
  "contains sub [] = (sub = [])"
| "contains sub (d # ds) = (starts_with sub (d # ds) \<or> contains sub ds)"


section \<open>Indicators: RSI\<close>

text \<open>
  \<open>BacktestEngine.calculate_rsi\<close> and \<open>DataManager.calculate_rsi\<close>. A series is a
  list of samples, \<open>None\<close> for NaN. \<open>diff\<close> has no value at the first index;
  \<open>clip\<close> keeps NaN; \<open>rolling(window=period, min_periods=1).mean()\<close> averages the
  non-NaN samples among the last \<open>period\<close> ones and is NaN when there is none. pandas
  rejects a window below \<open>min_periods\<close> with a ValueError.
\<close>

type_synonym series = "real option list"

fun diff_from :: "real option \<Rightarrow> series \<Rightarrow> series" where
  "diff_from prev [] = []"
| "diff_from prev (x # xs) =
     (case (x, prev) of (Some a, Some b) \<Rightarrow> Some (a - b) | _ \<Rightarrow> None) # diff_from x xs"

definition diff :: "series \<Rightarrow> series" where
  "diff xs = diff_from None xs"

definition clip_lower :: "real \<Rightarrow> series \<Rightarrow> series" where
  "clip_lower lo xs = map (map_option (\<lambda>d. max d lo)) xs"

definition clip_upper :: "real \<Rightarrow> series \<Rightarrow> series" where
  "clip_upper hi xs = map (map_option (\<lambda>d. min d hi)) xs"

definition neg :: "series \<Rightarrow> series" where
  "neg xs = map (map_option uminus) xs"

definition window_mean :: "series \<Rightarrow> real option" where
  "window_mean w =
     (let vs = List.map_filter id w
      in if 1 \<le> length vs then Some (sum_list vs / real (length vs)) else None)"

definition rolling_mean :: "nat \<Rightarrow> series \<Rightarrow> series" where
  "rolling_mean period xs =
     map (\<lambda>i. window_mean (drop (i + 1 - period) (take (i + 1) xs))) [0..<length xs]"

text \<open>A float division whose divisor is zero leaves the finite range: \<open>None\<close> here.\<close>

definition safe_div :: "real \<Rightarrow> real \<Rightarrow> real option" where
  "safe_div a b = (if b = 0 then None else Some (a / b))"

definition rsi_point :: "real option \<Rightarrow> real option \<Rightarrow> real option" where
  "rsi_point ma_up ma_down =
     (case (ma_up, ma_down) of
        (Some u, Some d) \<Rightarrow>
          (case safe_div u (d + 1 / 10 ^ 12) of
             None \<Rightarrow> None
           | Some rs \<Rightarrow> (case safe_div 100 (1 + rs) of None \<Rightarrow> None | Some q \<Rightarrow> Some (100 - q)))
      | _ \<Rightarrow> None)"

definition calculate_rsi :: "series \<Rightarrow> int \<Rightarrow> py_error + series" where
  "calculate_rsi series period =
     (if period < 1 then Inl ValueError
      else
        (let delta = diff series;
             up = clip_lower 0 delta;
             down = neg (clip_upper 0 delta);
             ma_up = rolling_mean (nat period) up;
             ma_down = rolling_mean (nat period) down
         in Inr (map (\<lambda>(u, d). rsi_point u d) (zip ma_up ma_down))))"

text \<open>\<open>DataManager.calculate_rsi\<close>: the same computation inside \<open>try\<close>; any exception
  gives a series of 50s.\<close>

definition dm_calculate_rsi :: "series \<Rightarrow> int \<Rightarrow> series" where
  "dm_calculate_rsi series period =
     (case calculate_rsi series period of
        Inr r \<Rightarrow> r
      | Inl e \<Rightarrow> replicate (length series) (Some 50))"


section \<open>Exit strategies\<close>

text \<open>
  The position handed to \<open>ExitStrategies\<close> is a dict: \<open>sl_price\<close> is read with
  \<open>get\<close> and a default, and \<open>partial_profit_taking\<close> adds keys \<open>taken_<level>\<close>
  to it (\<open>pd_flags\<close>).
\<close>

record position_dict =
  pd_direction :: string
  pd_entry_price :: real
  pd_sl_price :: "real option"
  pd_flags :: "string \<rightharpoonup> bool"

text \<open>\<open>trailing_stop_atr\<close>; \<open>multiplier\<close> defaults to 1.5. A short position without
  \<open>sl_price\<close> has the current stop \<open>float('inf')\<close>, and the minimum is the new stop.\<close>

definition trailing_stop_atr :: "real \<Rightarrow> position_dict \<Rightarrow> real \<Rightarrow> real \<Rightarrow> real" where
  "trailing_stop_atr current_price position atr_value multiplier =
     (if pd_direction position = ''buy'' then
        (let new_sl = current_price - (atr_value * multiplier);
             current_sl = (case pd_sl_price position of Some s \<Rightarrow> s | None \<Rightarrow> 0)
         in max new_sl current_sl)
      else
        (let new_sl = current_price + (atr_value * multiplier)
         in (case pd_sl_price position of Some s \<Rightarrow> min new_sl s | None \<Rightarrow> new_sl)))"

text \<open>
  \<open>partial_profit_taking\<close>. The profit percentage divides by the entry price (a Python
  float: zero raises). \<open>fmt\<close> is Python's formatting of a level inside the f-string
  \<open>f'taken_{level_pct}'\<close>. The loop is \<open>take_levels\<close>; it returns the pair that
  fired, of which the function returns the \<open>close_pct\<close>, or 0 when none fired.
\<close>

definition get_flag :: "position_dict \<Rightarrow> string \<Rightarrow> bool" where
  "get_flag position level_key = (case pd_flags position level_key of Some b \<Rightarrow> b | None \<Rightarrow> False)"

definition profit_pct :: "position_dict \<Rightarrow> real \<Rightarrow> py_error + real" where
  "profit_pct position current_price =
     (if pd_entry_price position = 0 then Inl ZeroDivisionError
      else if pd_direction position = ''buy''
      then Inr ((current_price - pd_entry_price position) / pd_entry_price position * 100)
      else Inr ((pd_entry_price position - current_price) / pd_entry_price position * 100))"

fun take_levels ::
  "(real \<Rightarrow> string) \<Rightarrow> position_dict \<Rightarrow> real \<Rightarrow> (real \<times> real) list
     \<Rightarrow> position_dict \<times> (real \<times> real) option" where
  "take_levels fmt position ppct [] = (position, None)"
| "take_levels fmt position ppct ((level_pct, close_pct) # levels) =
     (let level_key = ''taken_'' @ fmt level_pct
      in if level_pct \<le> ppct \<and> \<not> get_flag position level_key
         then (position\<lparr>pd_flags := (pd_flags position)(level_key \<mapsto> True)\<rparr>,
               Some (level_pct, close_pct))
         else take_levels fmt position ppct levels)"

definition partial_profit_taking ::
  "(real \<Rightarrow> string) \<Rightarrow> position_dict \<Rightarrow> real \<Rightarrow> (real \<times> real) list
     \<Rightarrow> py_error + (position_dict \<times> real)" where
  "partial_profit_taking fmt position current_price levels =
     (case profit_pct position current_price of
        Inl e \<Rightarrow> Inl e
      | Inr ppct \<Rightarrow>
          (case take_levels fmt position ppct levels of
             (position', Some (level_pct, close_pct)) \<Rightarrow> Inr (position', close_pct)
           | (position', None) \<Rightarrow> Inr (position', 0)))"

text \<open>
  A position's life under repeated evaluation: each evaluation has its own price and
  level list, the dict is carried from one to the next, and an evaluation that raises
  leaves it as it was. \<open>signalled\<close> lists the flag keys of the levels that fired, in
  order.
\<close>

fun signalled ::
  "(real \<Rightarrow> string) \<Rightarrow> position_dict \<Rightarrow> (real \<times> (real \<times> real) list) list \<Rightarrow> string list" where
  "signalled fmt position [] = []"
| "signalled fmt position ((current_price, levels) # evals) =
     (case profit_pct position current_price of
        Inl e \<Rightarrow> signalled fmt position evals
      | Inr ppct \<Rightarrow>
          (case take_levels fmt position ppct levels of
             (position', Some (level_pct, close_pct)) \<Rightarrow>
                (''taken_'' @ fmt level_pct) # signalled fmt position' evals
           | (position', None) \<Rightarrow> signalled fmt position' evals))"


section \<open>Risk manager\<close>

text \<open>
  \<open>RiskManager.calculate_position_size\<close>. What the MetaTrader calls return is the
  record \<open>mt5\<close>: the account's equity, the tick's ask and bid, the symbol's contract
  size, each \<open>None\<close> when the call returns \<open>None\<close>. The contract size is read from
  \<open>symbol_info(symbol)\<close> before the symbol is looked at, so a missing symbol raises
  there, and the \<open>except\<close> clause returns 0.01.
\<close>

record mt5 =
  account_info :: "real option"
  symbol_info_tick :: "(real \<times> real) option"
  symbol_info :: "real option"

definition rm_risk_per_lot :: "string \<Rightarrow> real \<Rightarrow> real \<Rightarrow> real" where
  "rm_risk_per_lot symbol distance contract_size =
     (if contains ''XAU'' symbol \<or> contains ''XAG'' symbol then (distance / 0.01) * 1.0
      else if contains ''USOIL'' symbol then distance * contract_size
      else distance * contract_size)"

definition calculate_position_size ::
  "mt5 \<Rightarrow> string \<Rightarrow> real \<Rightarrow> string \<Rightarrow> real \<Rightarrow> real" where
  "calculate_position_size mt symbol stop_loss_price side risk_percent =
     (case account_info mt of
        None \<Rightarrow> 0.01
      | Some equity \<Rightarrow>
          (let risk_amount = equity * (risk_percent / 100.0)
           in case symbol_info_tick mt of
                None \<Rightarrow> 0.01
              | Some (ask, bid) \<Rightarrow>
                  (let price = (if side = ''buy'' then ask else bid);
                       distance = \<bar>price - stop_loss_price\<bar>
                   in if distance \<le> 0 then 0.01
                      else
                        (case symbol_info mt of
                           None \<Rightarrow> 0.01
                         | Some contract_size \<Rightarrow>
                             (let risk_per_lot = rm_risk_per_lot symbol distance contract_size
                              in if risk_per_lot \<le> 0 then 0.01
                                 else
                                   (let lots = risk_amount / risk_per_lot;
                                        lots = round2 lots;
                                        min_lot = 0.01;
                                        max_lot = 5.0
                                    in max min_lot (min max_lot lots)))))))"


section \<open>Backtest engine\<close>

text \<open>
  A bar is a row of the data frame after \<open>calculate_indicators\<close>: its index (the
  timestamp, in seconds), the close and the ATR (NaN during the warm-up). The other
  columns are read by the strategies only. A strategy scores the bars up to the current
  one (the Fibonacci and daily levels passed to it are computed from the same bars) and
  places the stop and the target; both are the strategy object's methods.
\<close>

record bar =
  timestamp :: real
  close :: real
  ATR :: "real option"

record config =
  SYMBOL :: string
  MIN_CONFIRMATIONS :: real
  RISK_PERCENT :: real
  MIN_LOT :: real
  MAX_LOT :: real
  COMMISSION_PER_LOT :: real
  SPREAD_SIMULATION :: "real option"
  MAX_TRADE_HOURS :: "real option"

record strategy =
  calculate_confirmations :: "bar list \<Rightarrow> real \<times> real"
  calculate_sl_tp :: "real \<Rightarrow> real \<Rightarrow> string \<Rightarrow> real \<times> real"

text \<open>\<open>BaseStrategy.calculate_sl_tp\<close>, with the configured \<open>SL_ATR_MULTIPLIER\<close> and
  \<open>TP_RR\<close> (1.5 each when absent).\<close>

definition base_calculate_sl_tp :: "real \<Rightarrow> real \<Rightarrow> real \<Rightarrow> real \<Rightarrow> string \<Rightarrow> real \<times> real" where
  "base_calculate_sl_tp sl_multiplier tp_rr current_price atr_val dir =
     (if dir = ''buy'' then
        (let sl = current_price - sl_multiplier * atr_val
         in (sl, current_price + tp_rr * (current_price - sl)))
      else
        (let sl = current_price + sl_multiplier * atr_val
         in (sl, current_price - tp_rr * (sl - current_price))))"

record position =
  entry_time :: real
  direction :: string
  entry_price :: real
  sl_price :: real
  tp_price :: real
  lots :: real
  commission :: real
  entry_index :: nat

record trade =
  trade_entry_time :: real
  exit_time :: real
  trade_direction :: string
  trade_entry_price :: real
  exit_price :: real
  trade_lots :: real
  pnl :: real
  trade_commission :: real
  exit_reason :: string
  symbol :: string

record equity_point =
  point_timestamp :: real
  equity :: real

record engine =
  initial_balance :: real
  current_balance :: real
  trades :: "trade list"
  equity_curve :: "equity_point list"
  position :: "position option"

text \<open>
  \<open>enter_trade\<close>. The slippage is \<open>np.random.normal(0, spread / 2)\<close>, that is
  \<open>spread / 2\<close> times a standard normal draw \<open>z\<close>; numpy raises a ValueError for a
  negative scale.
\<close>

definition stops_of :: "strategy \<Rightarrow> bar \<Rightarrow> string \<Rightarrow> real \<times> real" where
  "stops_of strat current_bar dir =
     (let atr_val = (case ATR current_bar of Some a \<Rightarrow> a | None \<Rightarrow> 0.1 * close current_bar)
      in calculate_sl_tp strat (close current_bar) atr_val dir)"

definition spread_of :: "config \<Rightarrow> real" where
  "spread_of cfg = (case SPREAD_SIMULATION cfg of Some s \<Rightarrow> s | None \<Rightarrow> 0.0002)"

definition fill_price_of :: "config \<Rightarrow> real \<Rightarrow> string \<Rightarrow> bar \<Rightarrow> real" where
  "fill_price_of cfg z dir current_bar =
     (let spread = spread_of cfg;
          slippage = (spread / 2) * z
      in if dir = ''buy'' then close current_bar + spread / 2 + slippage
         else close current_bar - spread / 2 + slippage)"

definition risk_per_lot_of :: "config \<Rightarrow> real \<Rightarrow> real" where
  "risk_per_lot_of cfg distance =
     (if contains ''XAU'' (SYMBOL cfg) \<or> contains ''XAG'' (SYMBOL cfg)
      then (distance / 0.01) * 1.0
      else distance * 1.0)"

definition enter_trade ::
  "strategy \<Rightarrow> config \<Rightarrow> real \<Rightarrow> engine \<Rightarrow> string \<Rightarrow> bar \<Rightarrow> nat \<Rightarrow> py_error + engine" where
  "enter_trade strat cfg z st dir current_bar index =
     (let (sl, tp) = stops_of strat current_bar dir
      in if spread_of cfg / 2 < 0 then Inl ValueError
         else
           (let fill_price = fill_price_of cfg z dir current_bar;
                risk_amount = current_balance st * (RISK_PERCENT cfg / 100);
                distance = \<bar>fill_price - sl\<bar>;
                risk_per_lot = risk_per_lot_of cfg distance
            in if risk_per_lot \<le> 0 then Inr st
               else
                 (let lots0 = risk_amount / risk_per_lot;
                      lots1 = round2 lots0;
                      lots2 = max (MIN_LOT cfg) (min (MAX_LOT cfg) lots1);
                      comm = COMMISSION_PER_LOT cfg * lots2
                  in Inr (st\<lparr>position := Some
                       \<lparr>entry_time = timestamp current_bar, direction = dir,
                        entry_price = fill_price, sl_price = sl, tp_price = tp,
                        lots = lots2, commission = comm, entry_index = index\<rparr>\<rparr>))))"

definition check_entry_conditions ::
  "strategy \<Rightarrow> config \<Rightarrow> real \<Rightarrow> engine \<Rightarrow> bar \<Rightarrow> bar list \<Rightarrow> nat \<Rightarrow> py_error + engine" where
  "check_entry_conditions strat cfg z st current_bar previous_bars index =
     (let (buy, sell) = calculate_confirmations strat previous_bars;
          min_confirmations = MIN_CONFIRMATIONS cfg
      in if min_confirmations \<le> buy \<and> sell < buy
         then enter_trade strat cfg z st ''buy'' current_bar index
         else if min_confirmations \<le> sell \<and> buy < sell
         then enter_trade strat cfg z st ''sell'' current_bar index
         else Inr st)"

definition check_exit_conditions :: "config \<Rightarrow> engine \<Rightarrow> bar \<Rightarrow> string option" where
  "check_exit_conditions cfg st current_bar =
     (case position st of
        None \<Rightarrow> None
      | Some p \<Rightarrow>
          (let current_price = close current_bar;
               hours_in_trade = (timestamp current_bar - entry_time p) / 3600;
               time_exit =
                 (if (case MAX_TRADE_HOURS cfg of Some h \<Rightarrow> h | None \<Rightarrow> 72) \<le> hours_in_trade
                  then Some ''time'' else None)
           in if direction p = ''buy'' then
                (if current_price \<le> sl_price p then Some ''sl''
                 else if tp_price p \<le> current_price then Some ''tp''
                 else time_exit)
              else
                (if sl_price p \<le> current_price then Some ''sl''
                 else if current_price \<le> tp_price p then Some ''tp''
                 else time_exit)))"

text \<open>\<open>exit_trade\<close> reads \<open>self.position\<close>; on \<open>None\<close> the subscript raises a
  TypeError. The balance is a float and \<open>+=\<close> rounds.\<close>

definition exit_trade :: "config \<Rightarrow> engine \<Rightarrow> bar \<Rightarrow> string \<Rightarrow> py_error + engine" where
  "exit_trade cfg st current_bar reason =
     (case position st of
        None \<Rightarrow> Inl TypeError
      | Some p \<Rightarrow>
          (let price_out = close current_bar;
               gross = (if direction p = ''buy''
                        then (price_out - entry_price p) * lots p * 100
                        else (entry_price p - price_out) * lots p * 100);
               net = gross - commission p;
               trade_info =
                 \<lparr>trade_entry_time = entry_time p, exit_time = timestamp current_bar,
                  trade_direction = direction p, trade_entry_price = entry_price p,
                  exit_price = price_out, trade_lots = lots p, pnl = net,
                  trade_commission = commission p, exit_reason = reason,
                  symbol = SYMBOL cfg\<rparr>
           in Inr (st\<lparr>current_balance := b64_add (current_balance st) net,
                      trades := trades st @ [trade_info],
                      position := None\<rparr>)))"

definition update_equity_curve :: "engine \<Rightarrow> bar \<Rightarrow> engine" where
  "update_equity_curve st current_bar =
     st\<lparr>equity_curve := equity_curve st
           @ [\<lparr>point_timestamp = timestamp current_bar, equity = current_balance st\<rparr>]\<rparr>"

text \<open>
  The body of the main loop of \<open>run_backtest\<close> for the bar at index \<open>i\<close>; \<open>noise i\<close>
  is the standard normal draw an entry on that bar consumes. The exit signals are
  non-empty strings, so \<open>if exit_signal\<close> holds exactly when there is one.
\<close>

definition process_bar ::
  "strategy \<Rightarrow> config \<Rightarrow> (nat \<Rightarrow> real) \<Rightarrow> bar list \<Rightarrow> engine \<Rightarrow> nat \<Rightarrow> py_error + engine" where
  "process_bar strat cfg noise data st i =
     (let current_bar = data ! i;
          previous_bars = take (i + 1) data;
          after_exit =
            (case position st of
               None \<Rightarrow> Inr st
             | Some p \<Rightarrow>
                 (case check_exit_conditions cfg st current_bar of
                    None \<Rightarrow> Inr st
                  | Some exit_signal \<Rightarrow> exit_trade cfg st current_bar exit_signal))
      in case after_exit of
           Inl e \<Rightarrow> Inl e
         | Inr st1 \<Rightarrow>
             (case (case position st1 of
                      None \<Rightarrow> check_entry_conditions strat cfg (noise i) st1 current_bar
                                previous_bars i
                    | Some p \<Rightarrow> Inr st1) of
                Inl e \<Rightarrow> Inl e
              | Inr st2 \<Rightarrow> Inr (update_equity_curve st2 current_bar)))"

fun run_loop ::
  "strategy \<Rightarrow> config \<Rightarrow> (nat \<Rightarrow> real) \<Rightarrow> bar list \<Rightarrow> engine \<Rightarrow> nat list \<Rightarrow> py_error + engine" where
  "run_loop strat cfg noise data st [] = Inr st"
| "run_loop strat cfg noise data st (i # rest) =
     (case process_bar strat cfg noise data st i of
        Inl e \<Rightarrow> Inl e
      | Inr st' \<Rightarrow> run_loop strat cfg noise data st' rest)"

text \<open>The state \<open>run_backtest\<close> starts from; \<open>data.index[0]\<close> raises on an empty frame.\<close>

definition reset :: "real \<Rightarrow> bar list \<Rightarrow> py_error + engine" where
  "reset initial data =
     (case data of
        [] \<Rightarrow> Inl IndexError
      | first # _ \<Rightarrow>
          Inr \<lparr>initial_balance = initial, current_balance = initial, trades = [],
               equity_curve = [\<lparr>point_timestamp = timestamp first, equity = initial\<rparr>],
               position = None\<rparr>)"

text \<open>\<open>run_backtest\<close> up to the report: the engine after the last bar.\<close>

definition simulate ::
  "strategy \<Rightarrow> config \<Rightarrow> (nat \<Rightarrow> real) \<Rightarrow> real \<Rightarrow> bar list \<Rightarrow> py_error + engine" where
  "simulate strat cfg noise initial data =
     (case reset initial data of
        Inl e \<Rightarrow> Inl e
      | Inr st \<Rightarrow> run_loop strat cfg noise data st [100..<length data])"

text \<open>
  \<open>calculate_drawdown\<close>. The first equity value is the initial balance, a Python
  number, and the first pass divides a zero drawdown by it: a zero initial balance
  raises. A peak that becomes zero later is a numpy float, whose division gives an
  infinity or NaN.
\<close>

fun times100 :: "xfloat \<Rightarrow> xfloat" where
  "times100 (Fin r) = Fin (r * 100)"
| "times100 x = x"

fun drawdown_loop :: "real \<Rightarrow> real \<Rightarrow> xfloat \<Rightarrow> real list \<Rightarrow> real \<times> xfloat" where
  "drawdown_loop peak max_dd max_dd_pct [] = (max_dd, max_dd_pct)"
| "drawdown_loop peak max_dd max_dd_pct (e # es) =
     (let peak' = (if peak < e then e else peak);
          drawdown = peak' - e;
          drawdown_pct = times100 (fdiv drawdown peak')
      in if max_dd < drawdown then drawdown_loop peak' drawdown drawdown_pct es
         else drawdown_loop peak' max_dd max_dd_pct es)"

definition calculate_drawdown :: "real list \<Rightarrow> py_error + (real \<times> xfloat)" where
  "calculate_drawdown equity_values =
     (case equity_values of
        [] \<Rightarrow> Inl IndexError
      | e0 # _ \<Rightarrow>
          if e0 = 0 then Inl ZeroDivisionError
          else Inr (drawdown_loop e0 0 (Fin 0) equity_values))"

text \<open>
  The profit factor, as \<open>generate_report\<close> and
  \<open>PerformanceTracker.calculate_stats\<close> both compute it from the PnL of the trades.
  \<open>np.mean\<close> returns a numpy float, so the division never raises.
\<close>

definition mean :: "real list \<Rightarrow> real" where
  "mean xs = sum_list xs / real (length xs)"

definition profit_factor_of :: "real list \<Rightarrow> xfloat" where
  "profit_factor_of pnls =
     (let winning = filter (\<lambda>x. 0 < x) pnls;
          losing = filter (\<lambda>x. x \<le> 0) pnls;
          avg_win = (if winning \<noteq> [] then mean winning else 0);
          avg_loss = (if losing \<noteq> [] then mean (map abs losing) else 0)
      in if losing \<noteq> []
         then xabs (fdiv (avg_win * real (length winning)) (avg_loss * real (length losing)))
         else PosInf)"

record report =
  report_initial_balance :: real
  final_balance :: real
  total_pnl :: real
  total_trades :: nat
  winning_trades :: nat
  losing_trades :: nat
  win_rate :: real
  avg_win :: real
  avg_loss :: real
  profit_factor :: xfloat
  max_drawdown :: real
  max_drawdown_pct :: xfloat
  report_trades :: "trade list"
  report_equity_curve :: "equity_point list"

datatype backtest_result = NoTradesExecuted | Report (the_report: report)

definition generate_report :: "engine \<Rightarrow> py_error + backtest_result" where
  "generate_report st =
     (if trades st = [] then Inr NoTradesExecuted
      else
        (let pnls = map pnl (trades st);
             winning = filter (\<lambda>x. 0 < x) pnls;
             losing = filter (\<lambda>x. x \<le> 0) pnls
         in case calculate_drawdown (map equity (equity_curve st)) of
              Inl e \<Rightarrow> Inl e
            | Inr (dd, dd_pct) \<Rightarrow>
                Inr (Report
                  \<lparr>report_initial_balance = initial_balance st,
                   final_balance = current_balance st,
                   total_pnl = float_sum pnls,
                   total_trades = length (trades st),
                   winning_trades = length winning,
                   losing_trades = length losing,
                   win_rate = real (length winning) / real (length (trades st)),
                   avg_win = (if winning \<noteq> [] then mean winning else 0),
                   avg_loss = (if losing \<noteq> [] then mean (map abs losing) else 0),
                   profit_factor = profit_factor_of pnls,
                   max_drawdown = dd,
                   max_drawdown_pct = dd_pct,
                   report_trades = trades st,
                   report_equity_curve = equity_curve st\<rparr>)))"

definition run_backtest ::
  "strategy \<Rightarrow> config \<Rightarrow> (nat \<Rightarrow> real) \<Rightarrow> real \<Rightarrow> bar list \<Rightarrow> py_error + backtest_result" where
  "run_backtest strat cfg noise initial data =
     (case simulate strat cfg noise initial data of
        Inl e \<Rightarrow> Inl e
      | Inr st \<Rightarrow> generate_report st)"

text \<open>\<open>PerformanceTracker.calculate_stats\<close>, the profit factor it stores: an empty log
  returns \<open>{}\<close> before any statistic is computed.\<close>

definition calculate_stats_profit_factor :: "trade list \<Rightarrow> xfloat option" where
  "calculate_stats_profit_factor trade_log =
     (if trade_log = [] then None else Some (profit_factor_of (map pnl trade_log)))"


text \<open>
  The profit factor in the words of the specification:
  \<open>|avg_win * winCount| / |avg_loss * lossCount|\<close>, and infinity when no trade loses.
\<close>

definition spec_profit_factor :: "real list \<Rightarrow> xfloat" where
  "spec_profit_factor pnls =
     (let wins = filter (\<lambda>x. 0 < x) pnls;
          losses = filter (\<lambda>x. x \<le> 0) pnls;
          average_win = (if wins \<noteq> [] then mean wins else 0);
          average_loss = (if losses \<noteq> [] then mean (map abs losses) else 0)
      in if losses = [] then PosInf
         else fdiv \<bar>average_win * real (length wins)\<bar> \<bar>average_loss * real (length losses)\<bar>)"

text \<open>The accounting invariant of the engine: the balance is the initial balance with the
  PnL of the recorded trades added to it one after the other, in binary64, and the last
  equity point shows the balance.\<close>

definition conserved :: "engine \<Rightarrow> bool" where
  "conserved st \<longleftrightarrow>
     current_balance st = foldl b64_add (initial_balance st) (map pnl (trades st))
     \<and> equity_curve st \<noteq> []
     \<and> equity (last (equity_curve st)) = current_balance st"


section \<open>A worked run\<close>

text \<open>
  A gold configuration without spread, a strategy that scores three buy confirmations
  against one on bar 100 and nothing elsewhere, and 102 bars: the engine buys on bar 100
  at 1800 with the stop at 1785, the target at 1822.5 and half a lot, and the close of
  1830 on bar 101 takes the profit. Every number of the run is a binary64 number.
\<close>

definition example_config :: config where
  "example_config =
     \<lparr>SYMBOL = ''XAUUSD'', MIN_CONFIRMATIONS = 3, RISK_PERCENT = 7.5, MIN_LOT = 0.01,
      MAX_LOT = 5, COMMISSION_PER_LOT = 3.5, SPREAD_SIMULATION = Some 0,
      MAX_TRADE_HOURS = None\<rparr>"

definition example_strategy :: strategy where
  "example_strategy =
     \<lparr>calculate_confirmations = (\<lambda>bars. if length bars = 101 then (3, 1) else (0, 0)),
      calculate_sl_tp = base_calculate_sl_tp 1.5 1.5\<rparr>"

definition example_data :: "bar list" where
  "example_data =
     \<lparr>timestamp = 0, close = 1800, ATR = Some 10\<rparr>
     # replicate 99 \<lparr>timestamp = 0, close = 1800, ATR = Some 10\<rparr>
     @ [\<lparr>timestamp = 3600, close = 1800, ATR = Some 10\<rparr>,
        \<lparr>timestamp = 7200, close = 1830, ATR = Some 10\<rparr>]"

definition example_flat :: engine where
  "example_flat =
     \<lparr>initial_balance = 10000, current_balance = 10000, trades = [],
      equity_curve = [\<lparr>point_timestamp = 0, equity = 10000\<rparr>], position = None\<rparr>"

definition example_position :: position where
  "example_position =
     \<lparr>entry_time = 3600, direction = ''buy'', entry_price = 1800, sl_price = 1785,
      tp_price = 1822.5, lots = 0.5, commission = 1.75, entry_index = 100\<rparr>"

definition example_trade :: trade where
  "example_trade =
     \<lparr>trade_entry_time = 3600, exit_time = 7200, trade_direction = ''buy'',
      trade_entry_price = 1800, exit_price = 1830, trade_lots = 0.5, pnl = 1498.25,
      trade_commission = 1.75, exit_reason = ''tp'', symbol = ''XAUUSD''\<rparr>"

definition example_final :: engine where
  "example_final =
     \<lparr>initial_balance = 10000, current_balance = 11498.25, trades = [example_trade],
      equity_curve = [\<lparr>point_timestamp = 0, equity = 10000\<rparr>,
                      \<lparr>point_timestamp = 3600, equity = 10000\<rparr>,
                      \<lparr>point_timestamp = 7200, equity = 11498.25\<rparr>],
      position = None\<rparr>"




section \<open>Optimizer\<close>

text \<open>
  \<open>StrategyOptimizer\<close>. A parameter grid is a dict from names to candidate lists, kept
  in insertion order; a combination is the dict \<open>dict(zip(keys, combination))\<close>.
  \<open>itertools.product\<close> enumerates with the rightmost list advancing fastest, and an
  empty grid has the one empty combination.
\<close>

type_synonym 'v params = "(string \<times> 'v) list"

fun itertools_product :: "'v list list \<Rightarrow> 'v list list" where
  "itertools_product [] = [[]]"
| "itertools_product (xs # xss) =
     concat (map (\<lambda>x. map (\<lambda>c. x # c) (itertools_product xss)) xs)"

definition generate_parameter_combinations :: "(string \<times> 'v list) list \<Rightarrow> 'v params list" where
  "generate_parameter_combinations param_grid =
     (let keys = map fst param_grid;
          vals = map snd param_grid
      in map (\<lambda>combination. zip keys combination) (itertools_product vals))"

text \<open>
  \<open>calculate_metric\<close> reads the result dict with \<open>get(metric, 0)\<close>. The engine's
  report has no \<open>sharpe_ratio\<close> and no \<open>calmar_ratio\<close>; its \<open>trades\<close> and
  \<open>equity_curve\<close> are lists, and the error marker's \<open>error\<close> is a string: not
  numbers.
\<close>

datatype metric_value = Number xfloat | NotNumber

definition result_get :: "backtest_result \<Rightarrow> string \<Rightarrow> metric_value option" where
  "result_get res key =
     (case res of
        NoTradesExecuted \<Rightarrow> (if key = ''error'' then Some NotNumber else None)
      | Report r \<Rightarrow>
          (if key = ''initial_balance'' then Some (Number (Fin (report_initial_balance r)))
           else if key = ''final_balance'' then Some (Number (Fin (final_balance r)))
           else if key = ''total_pnl'' then Some (Number (Fin (total_pnl r)))
           else if key = ''total_trades'' then Some (Number (Fin (real (total_trades r))))
           else if key = ''winning_trades'' then Some (Number (Fin (real (winning_trades r))))
           else if key = ''losing_trades'' then Some (Number (Fin (real (losing_trades r))))
           else if key = ''win_rate'' then Some (Number (Fin (win_rate r)))
           else if key = ''avg_win'' then Some (Number (Fin (avg_win r)))
           else if key = ''avg_loss'' then Some (Number (Fin (avg_loss r)))
           else if key = ''profit_factor'' then Some (Number (profit_factor r))
           else if key = ''max_drawdown'' then Some (Number (Fin (max_drawdown r)))
           else if key = ''max_drawdown_pct'' then Some (Number (max_drawdown_pct r))
           else if key = ''trades'' then Some NotNumber
           else if key = ''equity_curve'' then Some NotNumber
           else None))"

definition get_or_zero :: "backtest_result \<Rightarrow> string \<Rightarrow> metric_value" where
  "get_or_zero res key = (case result_get res key of Some v \<Rightarrow> v | None \<Rightarrow> Number (Fin 0))"

definition calculate_metric :: "backtest_result \<Rightarrow> string \<Rightarrow> metric_value" where
  "calculate_metric res metric =
     (if metric = ''sharpe_ratio'' then get_or_zero res ''sharpe_ratio''
      else if metric = ''profit_factor'' then get_or_zero res ''profit_factor''
      else if metric = ''win_rate'' then get_or_zero res ''win_rate''
      else if metric = ''total_pnl'' then get_or_zero res ''total_pnl''
      else if metric = ''calmar_ratio'' then get_or_zero res ''calmar_ratio''
      else get_or_zero res metric)"

record 'v trial =
  params :: "'v params"
  score :: xfloat
  result :: report

record 'v optimization =
  best_params :: "'v params option"
  best_score :: xfloat
  best_result :: "report option"
  all_results :: "'v trial list"

text \<open>
  The loop of \<open>optimize_parameters\<close>. \<open>backtest i params\<close> is the \<open>i\<close>-th run:
  a strategy and an engine built from the base configuration updated with \<open>params\<close>,
  run on the optimizer's data with that run's random slippage; it is a parameter here.
  A result with the \<open>error\<close> key is skipped. A score that is not a number is appended
  and then fails the comparison with a TypeError.
\<close>

fun optimize_loop ::
  "(nat \<Rightarrow> 'v params \<Rightarrow> py_error + backtest_result) \<Rightarrow> string \<Rightarrow> 'v optimization
     \<Rightarrow> (nat \<times> 'v params) list \<Rightarrow> py_error + 'v optimization" where
  "optimize_loop backtest metric acc [] = Inr acc"
| "optimize_loop backtest metric acc ((i, ps) # rest) =
     (case backtest i ps of
        Inl e \<Rightarrow> Inl e
      | Inr NoTradesExecuted \<Rightarrow> optimize_loop backtest metric acc rest
      | Inr (Report r) \<Rightarrow>
          (case calculate_metric (Report r) metric of
             NotNumber \<Rightarrow> Inl TypeError
           | Number s \<Rightarrow>
               (let acc1 = acc\<lparr>all_results := all_results acc
                                  @ [\<lparr>params = ps, score = s, result = r\<rparr>]\<rparr>;
                    acc2 = (if xless (best_score acc1) s
                            then acc1\<lparr>best_score := s, best_params := Some ps,
                                      best_result := Some r\<rparr>
                            else acc1)
                in optimize_loop backtest metric acc2 rest)))"

text \<open>\<open>optimize_parameters\<close>; \<open>results\<close> is \<open>self.results\<close> when the call begins:
  empty on a new optimizer, and never cleared.\<close>

definition optimize_parameters ::
  "(nat \<Rightarrow> 'v params \<Rightarrow> py_error + backtest_result) \<Rightarrow> 'v trial list
     \<Rightarrow> (string \<times> 'v list) list \<Rightarrow> string \<Rightarrow> py_error + 'v optimization" where
  "optimize_parameters backtest results param_grid metric =
     optimize_loop backtest metric
       \<lparr>best_params = None, best_score = NegInf, best_result = None, all_results = results\<rparr>
       (enumerate 0 (generate_parameter_combinations param_grid))"

text \<open>
  What the loop maintains about the best trial: the best score is not NaN, no recorded
  score is above it in the float order, it is still minus infinity as long as there are
  no best parameters, and the best parameters, when there are any, are those of the
  first recorded trial whose score is the best score, which is then above minus infinity.
\<close>

definition best_ok :: "'v optimization \<Rightarrow> bool" where
  "best_ok acc \<longleftrightarrow>
     best_score acc \<noteq> NaN
     \<and> (\<forall>t \<in> set (all_results acc). \<not> xless (best_score acc) (score t))
     \<and> (case best_params acc of
          None \<Rightarrow> best_score acc = NegInf \<and> best_result acc = None
        | Some p \<Rightarrow>
            xless NegInf (best_score acc)
            \<and> (\<exists>k < length (all_results acc).
                params (all_results acc ! k) = p
                \<and> score (all_results acc ! k) = best_score acc
                \<and> best_result acc = Some (result (all_results acc ! k))
                \<and> (\<forall>j < k. score (all_results acc ! j) \<noteq> best_score acc)))"

text \<open>
  Three backtests for the optimizer, each the engine's \<open>run_backtest\<close> whatever the
  combination: the worked run, whose report is \<open>example_report_record\<close>; a run on a
  single bar, which closes no trade and returns the error marker; and a run that breaks
  even (no commission, the position closed after one hour at its entry price), whose
  only trade has a PnL of 0, so that its profit factor is \<open>0 / 0\<close>.
\<close>

definition example_report_record :: report where
  "example_report_record =
     \<lparr>report_initial_balance = 10000, final_balance = 11498.25, total_pnl = 1498.25,
      total_trades = 1, winning_trades = 1, losing_trades = 0, win_rate = 1,
      avg_win = 1498.25, avg_loss = 0, profit_factor = PosInf, max_drawdown = 0,
      max_drawdown_pct = Fin 0, report_trades = [example_trade],
      report_equity_curve = equity_curve example_final\<rparr>"

definition example_backtest :: "nat \<Rightarrow> real params \<Rightarrow> py_error + backtest_result" where
  "example_backtest i ps =
     run_backtest example_strategy example_config (\<lambda>i. 0) 10000 example_data"

definition example_idle_backtest :: "nat \<Rightarrow> real params \<Rightarrow> py_error + backtest_result" where
  "example_idle_backtest i ps =
     run_backtest example_strategy example_config (\<lambda>i. 0) 10000
       [\<lparr>timestamp = 0, close = 1800, ATR = Some 10\<rparr>]"

definition example_breakeven_data :: "bar list" where
  "example_breakeven_data =
     \<lparr>timestamp = 0, close = 1800, ATR = Some 10\<rparr>
     # replicate 99 \<lparr>timestamp = 0, close = 1800, ATR = Some 10\<rparr>
     @ [\<lparr>timestamp = 3600, close = 1800, ATR = Some 10\<rparr>,
        \<lparr>timestamp = 7200, close = 1800, ATR = Some 10\<rparr>]"

definition example_breakeven_record :: report where
  "example_breakeven_record =
     \<lparr>report_initial_balance = 10000, final_balance = 10000, total_pnl = 0,
      total_trades = 1, winning_trades = 0, losing_trades = 1, win_rate = 0,
      avg_win = 0, avg_loss = 0, profit_factor = NaN, max_drawdown = 0,
      max_drawdown_pct = Fin 0,
      report_trades =
        [\<lparr>trade_entry_time = 3600, exit_time = 7200, trade_direction = ''buy'',
          trade_entry_price = 1800, exit_price = 1800, trade_lots = 0.5, pnl = 0,
          trade_commission = 0, exit_reason = ''time'', symbol = ''XAUUSD''\<rparr>],
      report_equity_curve =
        [\<lparr>point_timestamp = 0, equity = 10000\<rparr>,
         \<lparr>point_timestamp = 3600, equity = 10000\<rparr>,
         \<lparr>point_timestamp = 7200, equity = 10000\<rparr>]\<rparr>"

definition example_breakeven_backtest ::
  "nat \<Rightarrow> real params \<Rightarrow> py_error + backtest_result" where
  "example_breakeven_backtest i ps =
     run_backtest example_strategy
       (example_config\<lparr>COMMISSION_PER_LOT := 0, MAX_TRADE_HOURS := Some 1\<rparr>)
       (\<lambda>i. 0) 10000 example_breakeven_data"


text \<open>A long position entered at 100 with no level taken yet, and the formatting of
  the two levels it is evaluated against.\<close>

definition example_fmt :: "real \<Rightarrow> string" where
  "example_fmt x = (if x = 1 then ''1.0'' else if x = 2 then ''2.0'' else ''other'')"

definition example_long :: position_dict where
  "example_long =
     \<lparr>pd_direction = ''buy'', pd_entry_price = 100, pd_sl_price = None, pd_flags = Map.empty\<rparr>"


section \<open>Properties of the exit strategies\<close>

lemma take_levels_flags_kept:
  "take_levels fmt p ppct levels = (p', r) \<Longrightarrow> get_flag p k \<Longrightarrow> get_flag p' k"
  by (induction levels) (auto simp: get_flag_def Let_def split: if_splits)

lemma take_levels_fired:
  "take_levels fmt p ppct levels = (p', Some (l, c)) \<Longrightarrow>
     \<not> get_flag p (''taken_'' @ fmt l) \<and> get_flag p' (''taken_'' @ fmt l)
     \<and> (l, c) \<in> set levels \<and> l \<le> ppct"
  by (induction levels) (auto simp: get_flag_def Let_def split: if_splits)

lemma take_levels_none:
  "take_levels fmt p ppct levels = (p', None) \<Longrightarrow> p' = p"
  by (induction levels) (auto simp: Let_def split: if_splits)

lemma signalled_not_flagged:
  "k \<in> set (signalled fmt p evals) \<Longrightarrow> \<not> get_flag p k"
proof (induction evals arbitrary: p)
  case Nil
  then show ?case by simp
next
  case (Cons e evals)
  obtain cp levels where e: "e = (cp, levels)" by (cases e)
  show ?case
  proof (cases "profit_pct p cp")
    case (Inl err)
    with Cons e show ?thesis by simp
  next
    case (Inr ppct)
    obtain p' r where tl: "take_levels fmt p ppct levels = (p', r)"
      by (cases "take_levels fmt p ppct levels")
    show ?thesis
    proof (cases r)
      case None
      with Cons e Inr tl take_levels_none[of fmt p ppct levels p'] show ?thesis by simp
    next
      case (Some lc)
      obtain l c where lc: "lc = (l, c)" by (cases lc)
      from tl Some lc have fired: "\<not> get_flag p (''taken_'' @ fmt l)"
        using take_levels_fired by blast
      from Cons.prems e Inr tl Some lc
      have "k = ''taken_'' @ fmt l \<or> k \<in> set (signalled fmt p' evals)" by simp
      then show ?thesis
      proof
        assume "k = ''taken_'' @ fmt l"
        with fired show ?thesis by simp
      next
        assume "k \<in> set (signalled fmt p' evals)"
        then have "\<not> get_flag p' k" by (rule Cons.IH)
        with tl show ?thesis using take_levels_flags_kept by blast
      qed
    qed
  qed
qed

lemma signalled_distinct: "distinct (signalled fmt p evals)"
proof (induction evals arbitrary: p)
  case Nil
  show ?case by simp
next
  case (Cons e evals)
  obtain cp levels where e: "e = (cp, levels)" by (cases e)
  show ?case
  proof (cases "profit_pct p cp")
    case (Inl err)
    with Cons e show ?thesis by simp
  next
    case (Inr ppct)
    obtain p' r where tl: "take_levels fmt p ppct levels = (p', r)"
      by (cases "take_levels fmt p ppct levels")
    show ?thesis
    proof (cases r)
      case None
      with Cons e Inr tl show ?thesis by simp
    next
      case (Some lc)
      obtain l c where lc: "lc = (l, c)" by (cases lc)
      from tl Some lc have "get_flag p' (''taken_'' @ fmt l)"
        using take_levels_fired by blast
      then have "''taken_'' @ fmt l \<notin> set (signalled fmt p' evals)"
        using signalled_not_flagged by blast
      with Cons.IH[of p'] e Inr tl Some lc show ?thesis by simp
    qed
  qed
qed

lemma partial_profit_taking_call:
  assumes "partial_profit_taking fmt p cp levels = Inr (p', r)"
  shows "(\<forall>k. get_flag p k \<longrightarrow> get_flag p' k)
         \<and> ((p' = p \<and> r = 0)
            \<or> (\<exists>l. (l, r) \<in> set levels \<and> \<not> get_flag p (''taken_'' @ fmt l)
                   \<and> get_flag p' (''taken_'' @ fmt l)))"
proof -
  from assms obtain ppct where pp: "profit_pct p cp = Inr ppct"
    by (auto simp: partial_profit_taking_def split: sum.splits)
  obtain q fired where tl: "take_levels fmt p ppct levels = (q, fired)"
    by (cases "take_levels fmt p ppct levels")
  show ?thesis
  proof (cases fired)
    case None
    with assms pp tl take_levels_none[of fmt p ppct levels q]
    show ?thesis by (auto simp: partial_profit_taking_def)
  next
    case (Some lc)
    obtain l c where lc: "lc = (l, c)" by (cases lc)
    from assms pp tl Some lc have eq: "p' = q" "r = c"
      by (auto simp: partial_profit_taking_def)
    from tl Some lc take_levels_fired[of fmt p ppct levels q l c]
    have "\<not> get_flag p (''taken_'' @ fmt l) \<and> get_flag q (''taken_'' @ fmt l)
            \<and> (l, c) \<in> set levels" by simp
    moreover have "\<forall>k. get_flag p k \<longrightarrow> get_flag q k"
      using tl take_levels_flags_kept by blast
    ultimately show ?thesis using eq by blast
  qed
qed

text \<open>
  C4. The ATR trailing stop only tightens. For a buy position the result is the maximum
  of the new stop \<open>price - ATR * multiplier\<close> and the current stop (0 when the dict has
  none), so it is never below the current stop; for any other position it is the minimum
  of \<open>price + ATR * multiplier\<close> and the current stop, so it is never above it.
\<close>

theorem trailing_stop_only_tightens:
  "(pd_direction p = ''buy'' \<longrightarrow>
      trailing_stop_atr c p a m
        = max (c - a * m) (case pd_sl_price p of Some s \<Rightarrow> s | None \<Rightarrow> 0)
      \<and> (\<forall>s. pd_sl_price p = Some s \<longrightarrow> s \<le> trailing_stop_atr c p a m))
   \<and> (pd_direction p \<noteq> ''buy'' \<longrightarrow>
      (\<forall>s. pd_sl_price p = Some s \<longrightarrow>
         trailing_stop_atr c p a m = min (c + a * m) s \<and> trailing_stop_atr c p a m \<le> s))"
  by (auto simp: trailing_stop_atr_def Let_def)

theorem trailing_stop_only_tightens_witness:
  "trailing_stop_atr 1900
     \<lparr>pd_direction = ''buy'', pd_entry_price = 1890, pd_sl_price = Some 1898,
      pd_flags = Map.empty\<rparr> 2 (3/2) = 1898
   \<and> trailing_stop_atr 1900
     \<lparr>pd_direction = ''sell'', pd_entry_price = 1910, pd_sl_price = Some 1902,
      pd_flags = Map.empty\<rparr> 2 (3/2) = 1902"
  using trailing_stop_only_tightens
          [of "\<lparr>pd_direction = ''buy'', pd_entry_price = 1890, pd_sl_price = Some 1898,
                pd_flags = Map.empty\<rparr>" 1900 2 "3/2"]
        trailing_stop_only_tightens
          [of "\<lparr>pd_direction = ''sell'', pd_entry_price = 1910, pd_sl_price = Some 1902,
                pd_flags = Map.empty\<rparr>" 1900 2 "3/2"]
  by simp

text \<open>
  C5. Partial profit-taking fires each level at most once per position. Over any
  sequence of evaluations of one position, whatever the prices and level lists, the flag
  keys of the levels that fired are pairwise different, and none of them was flagged
  when the sequence began. In a single call, the flags that were set stay set, and the
  call either changes nothing and returns 0, or returns the \<open>close_pct\<close> of a level
  whose flag was not set before the call and is set after it. So once a level's flag is
  set, no later evaluation signals that level, at the same profit or a higher one.
\<close>

theorem partial_profit_once_per_level:
  "distinct (signalled fmt p evals)
   \<and> (\<forall>k \<in> set (signalled fmt p evals). \<not> get_flag p k)
   \<and> (\<forall>p' r. partial_profit_taking fmt p cp levels = Inr (p', r) \<longrightarrow>
         (\<forall>k. get_flag p k \<longrightarrow> get_flag p' k)
         \<and> ((p' = p \<and> r = 0)
            \<or> (\<exists>l. (l, r) \<in> set levels \<and> \<not> get_flag p (''taken_'' @ fmt l)
                   \<and> get_flag p' (''taken_'' @ fmt l))))"
  using signalled_distinct signalled_not_flagged partial_profit_taking_call by blast

theorem partial_profit_once_per_level_witness:
  "signalled example_fmt example_long
     [(101.5, [(1, 50), (2, 30)]), (103, [(1, 50), (2, 30)]),
      (103, [(1, 50), (2, 30)]), (104, [(1, 50), (2, 30)])]
     = [''taken_1.0'', ''taken_2.0'']
   \<and> partial_profit_taking example_fmt example_long 101.5 [(1, 50), (2, 30)]
     = Inr (example_long\<lparr>pd_flags := [''taken_1.0'' \<mapsto> True]\<rparr>, 50)
   \<and> partial_profit_taking example_fmt
       (example_long\<lparr>pd_flags := [''taken_1.0'' \<mapsto> True]\<rparr>) 101.5 [(1, 50), (2, 30)]
     = Inr (example_long\<lparr>pd_flags := [''taken_1.0'' \<mapsto> True]\<rparr>, 0)"
  using partial_profit_once_per_level
          [of example_fmt example_long
              "[(101.5, [(1, 50), (2, 30)]), (103, [(1, 50), (2, 30)]),
                (103, [(1, 50), (2, 30)]), (104, [(1, 50), (2, 30)])]"
              "101.5" "[(1, 50), (2, 30)]"]
  by (simp add: example_fmt_def example_long_def profit_pct_def get_flag_def
        partial_profit_taking_def)

section \<open>Properties of the RSI\<close>

lemma map_filter_id_set: "set (List.map_filter id w) = {v. Some v \<in> set w}"
  by (induction w) (auto simp: List.map_filter_def)

lemma window_mean_nonneg:
  assumes "\<forall>v. Some v \<in> set w \<longrightarrow> 0 \<le> v" and "window_mean w = Some m"
  shows "0 \<le> m"
proof -
  let ?vs = "List.map_filter id w"
  from assms(1) have "\<forall>v \<in> set ?vs. 0 \<le> v" by (simp add: map_filter_id_set)
  then have "0 \<le> sum_list ?vs" by (simp add: sum_list_nonneg)
  moreover from assms(2) have "m = sum_list ?vs / real (length ?vs)"
    by (auto simp: window_mean_def Let_def split: if_splits)
  ultimately show ?thesis by simp
qed

lemma window_mean_defined:
  assumes "Some v \<in> set w"
  shows "window_mean w \<noteq> None"
proof -
  from assms have "v \<in> set (List.map_filter id w)" by (simp add: map_filter_id_set)
  then have "List.map_filter id w \<noteq> []" by auto
  then have "1 \<le> length (List.map_filter id w)" by (simp add: Suc_le_eq)
  then show ?thesis by (simp add: window_mean_def Let_def)
qed

lemma rolling_mean_nonneg:
  assumes "\<forall>v. Some v \<in> set xs \<longrightarrow> 0 \<le> v" and "Some m \<in> set (rolling_mean n xs)"
  shows "0 \<le> m"
proof -
  from assms(2) obtain i where "window_mean (drop (i + 1 - n) (take (i + 1) xs)) = Some m"
    by (auto simp: rolling_mean_def)
  moreover have "\<forall>v. Some v \<in> set (drop (i + 1 - n) (take (i + 1) xs)) \<longrightarrow> 0 \<le> v"
    using assms(1) by (meson in_set_dropD in_set_takeD)
  ultimately show ?thesis using window_mean_nonneg by blast
qed

lemma window_has_current:
  assumes "i < length xs" "1 \<le> n"
  shows "xs ! i \<in> set (drop (i + 1 - n) (take (i + 1) xs))"
proof -
  let ?w = "take (i + 1) xs"
  from assms have len: "length ?w = i + 1" by simp
  from assms have k: "i + 1 - n \<le> i" by simp
  have "drop (i + 1 - n) ?w ! (i - (i + 1 - n)) = ?w ! i"
    using k len by simp
  moreover have "?w ! i = xs ! i" by simp
  moreover have "i - (i + 1 - n) < length (drop (i + 1 - n) ?w)"
    using k len by simp
  ultimately show ?thesis by (metis nth_mem)
qed

lemma rolling_mean_defined:
  assumes "i < length xs" "1 \<le> n" "xs ! i = Some v"
  shows "rolling_mean n xs ! i \<noteq> None"
proof -
  from assms(1) have "rolling_mean n xs ! i = window_mean (drop (i + 1 - n) (take (i + 1) xs))"
    by (simp add: rolling_mean_def)
  moreover have "Some v \<in> set (drop (i + 1 - n) (take (i + 1) xs))"
    using window_has_current[OF assms(1,2)] assms(3) by simp
  ultimately show ?thesis using window_mean_defined by simp
qed

lemma up_nonneg: "Some v \<in> set (clip_lower 0 xs) \<Longrightarrow> 0 \<le> v"
proof -
  assume "Some v \<in> set (clip_lower 0 xs)"
  then have "Some v \<in> map_option (\<lambda>d. max d 0) ` set xs"
    by (simp add: clip_lower_def)
  then obtain x where "Some v = map_option (\<lambda>d. max d 0) x" by blast
  then show ?thesis by (cases x) auto
qed

lemma down_nonneg: "Some v \<in> set (neg (clip_upper 0 xs)) \<Longrightarrow> 0 \<le> v"
proof -
  assume "Some v \<in> set (neg (clip_upper 0 xs))"
  then have "Some v \<in> (\<lambda>x. map_option uminus (map_option (\<lambda>d. min d 0) x)) ` set xs"
    by (simp add: neg_def clip_upper_def image_image)
  then obtain x where "Some v = map_option uminus (map_option (\<lambda>d. min d 0) x)" by blast
  then show ?thesis by (cases x) auto
qed

lemma rsi_point_in_range:
  assumes "0 \<le> u" "0 \<le> d"
  shows "\<exists>v. rsi_point (Some u) (Some d) = Some v \<and> 0 \<le> v \<and> v \<le> 100"
proof -
  define e :: real where "e = d + 1 / 10 ^ 12"
  define rs where "rs = u / e"
  have den: "0 < e" using assms(2) by (simp add: e_def add_nonneg_pos)
  then have rs: "0 \<le> rs" using assms(1) by (simp add: rs_def)
  then have one: "0 < 1 + rs" by simp
  have q: "0 \<le> 100 / (1 + rs)" "100 / (1 + rs) \<le> 100"
    using rs one by (simp_all add: divide_le_eq)
  from den one have "rsi_point (Some u) (Some d) = Some (100 - 100 / (1 + rs))"
    by (simp add: rsi_point_def safe_div_def rs_def e_def)
  with q show ?thesis by simp
qed

lemma rsi_point_some: "rsi_point a b = Some v \<Longrightarrow> \<exists>u d. a = Some u \<and> b = Some d"
  by (auto simp: rsi_point_def split: option.splits)

lemma length_diff_from: "length (diff_from p xs) = length xs"
  by (induction xs arbitrary: p) auto

lemma diff_from_nth:
  "i < length xs \<Longrightarrow>
     diff_from p xs ! i =
       (case (xs ! i, if i = 0 then p else xs ! (i - 1)) of
          (Some a, Some b) \<Rightarrow> Some (a - b) | _ \<Rightarrow> None)"
proof (induction xs arbitrary: p i)
  case Nil
  then show ?case by simp
next
  case (Cons x xs)
  show ?case
  proof (cases i)
    case 0
    then show ?thesis by simp
  next
    case (Suc j)
    with Cons.prems have "j < length xs" by simp
    from Cons.IH[OF this, of x] Suc show ?thesis by (cases j) simp_all
  qed
qed

lemma length_rolling_mean: "length (rolling_mean n xs) = length xs"
  by (simp add: rolling_mean_def)

lemma rsi_series:
  assumes "1 \<le> period"
  shows "\<exists>r. calculate_rsi series period = Inr r \<and> length r = length series
           \<and> (\<forall>v. Some v \<in> set r \<longrightarrow> 0 \<le> v \<and> v \<le> 100)
           \<and> (\<forall>i. 1 \<le> i \<and> i < length series \<and> series ! i \<noteq> None \<and> series ! (i - 1) \<noteq> None
                 \<longrightarrow> r ! i \<noteq> None)"
proof -
  let ?delta = "diff series"
  let ?u = "clip_lower 0 ?delta"
  let ?d = "neg (clip_upper 0 ?delta)"
  let ?up = "rolling_mean (nat period) ?u"
  let ?down = "rolling_mean (nat period) ?d"
  let ?r = "map (\<lambda>(u, d). rsi_point u d) (zip ?up ?down)"
  from assms have eq: "calculate_rsi series period = Inr ?r"
    by (simp add: calculate_rsi_def Let_def)
  have lens: "length ?delta = length series" "length ?u = length series"
    "length ?d = length series"
    by (simp_all add: clip_lower_def clip_upper_def neg_def diff_def length_diff_from)
  have len: "length ?r = length series"
    by (simp add: length_rolling_mean lens)
  have bounds: "0 \<le> v \<and> v \<le> 100" if "Some v \<in> set ?r" for v
  proof -
    from that obtain a b where ab: "(a, b) \<in> set (zip ?up ?down)" "rsi_point a b = Some v"
      by auto
    then obtain u d where ud: "a = Some u" "b = Some d" using rsi_point_some by blast
    from ab(1) ud have "Some u \<in> set ?up" "Some d \<in> set ?down"
      by (auto dest: set_zip_leftD set_zip_rightD)
    then have "0 \<le> u" "0 \<le> d"
      using rolling_mean_nonneg up_nonneg down_nonneg by blast+
    with rsi_point_in_range[of u d] ab(2) ud show ?thesis by auto
  qed
  have defined: "?r ! i \<noteq> None"
    if i: "1 \<le> i" "i < length series" "series ! i \<noteq> None" "series ! (i - 1) \<noteq> None" for i
  proof -
    from i obtain a b where ab: "series ! i = Some a" "series ! (i - 1) = Some b" by auto
    from i ab have dl: "?delta ! i = Some (a - b)"
      by (simp add: diff_def diff_from_nth)
    from i dl lens have ui: "?u ! i = Some (max (a - b) 0)"
      by (simp add: clip_lower_def)
    from i dl lens have di: "?d ! i = Some (- min (a - b) 0)"
      by (simp add: clip_upper_def neg_def)
    from assms have n: "1 \<le> nat period" by simp
    from i lens have iu: "i < length ?u" and id: "i < length ?d" by simp_all
    from rolling_mean_defined[OF iu n ui] obtain x where x: "?up ! i = Some x" by auto
    from rolling_mean_defined[OF id n di] obtain y where y: "?down ! i = Some y" by auto
    from iu have "?up ! i \<in> set ?up" by (simp add: length_rolling_mean)
    with x have "0 \<le> x" using rolling_mean_nonneg[of ?u x "nat period"] up_nonneg by metis
    moreover from id have "?down ! i \<in> set ?down" by (simp add: length_rolling_mean)
    with y have "0 \<le> y" using rolling_mean_nonneg[of ?d y "nat period"] down_nonneg by metis
    ultimately obtain v where "rsi_point (Some x) (Some y) = Some v"
      using rsi_point_in_range by blast
    moreover from i lens have "?r ! i = rsi_point (?up ! i) (?down ! i)"
      by (simp add: length_rolling_mean)
    ultimately show ?thesis using x y by simp
  qed
  from eq len bounds defined show ?thesis by blast
qed

text \<open>
  C3. For every price series and every period of at least 1, the RSI is computed (no
  exception), it has one entry per sample, every defined entry lies between 0 and 100,
  and the entry is defined at every index from 1 on whose sample and whose preceding
  sample are defined: the divisions never meet a zero divisor. The data manager's
  version returns the same series.
\<close>

theorem rsi_within_bounds:
  assumes "1 \<le> period"
  shows "\<exists>r. calculate_rsi series period = Inr r \<and> dm_calculate_rsi series period = r
           \<and> length r = length series
           \<and> (\<forall>v. Some v \<in> set r \<longrightarrow> 0 \<le> v \<and> v \<le> 100)
           \<and> (\<forall>i. 1 \<le> i \<and> i < length series \<and> series ! i \<noteq> None \<and> series ! (i - 1) \<noteq> None
                 \<longrightarrow> r ! i \<noteq> None)"
proof -
  from rsi_series[OF assms, of series] obtain r where r: "calculate_rsi series period = Inr r"
    "length r = length series" "\<forall>v. Some v \<in> set r \<longrightarrow> 0 \<le> v \<and> v \<le> 100"
    "\<forall>i. 1 \<le> i \<and> i < length series \<and> series ! i \<noteq> None \<and> series ! (i - 1) \<noteq> None
                 \<longrightarrow> r ! i \<noteq> None" by blast
  from r(1) have "dm_calculate_rsi series period = r" by (simp add: dm_calculate_rsi_def)
  with r show ?thesis by blast
qed

theorem rsi_within_bounds_witness:
  "(1::int) \<le> 2
   \<and> calculate_rsi [Some 1, Some 3, Some 2, Some 2] 2
     = Inr [None, Some (200000000000000 / 2000000000001),
            Some (100000000000000 / 1500000000001), Some 0]
   \<and> dm_calculate_rsi [Some 1, Some 3, Some 2, Some 2] 2
     = [None, Some (200000000000000 / 2000000000001),
        Some (100000000000000 / 1500000000001), Some 0]"
proof -
  have h: "(1::int) \<le> 2" by simp
  have e: "calculate_rsi [Some 1, Some 3, Some 2, Some 2] 2
     = Inr [None, Some (200000000000000 / 2000000000001),
            Some (100000000000000 / 1500000000001), Some 0]"
    by (simp add: calculate_rsi_def diff_def clip_lower_def clip_upper_def neg_def
          rolling_mean_def window_mean_def rsi_point_def safe_div_def List.map_filter_def
          upt_rec)
  from rsi_within_bounds[OF h, of "[Some 1, Some 3, Some 2, Some 2]"] e h
  show ?thesis by auto
qed

section \<open>Properties of position sizing and of the engine\<close>

lemma enter_trade_cases:
  assumes "enter_trade strat cfg z st dir b i = Inr st'"
  shows "st' = st \<or> (\<exists>p. st' = st\<lparr>position := Some p\<rparr> \<and> direction p = dir \<and> entry_index p = i
           \<and> lots p = max (MIN_LOT cfg) (min (MAX_LOT cfg) (lots p))
           \<and> 0 < risk_per_lot_of cfg \<bar>fill_price_of cfg z dir b - fst (stops_of strat b dir)\<bar>)"
  using assms
  by (auto simp: enter_trade_def Let_def max_def min_def split: prod.splits if_splits)

lemma enter_trade_keeps:
  assumes "enter_trade strat cfg z st dir b i = Inr st'"
  shows "trades st' = trades st \<and> current_balance st' = current_balance st
          \<and> equity_curve st' = equity_curve st \<and> initial_balance st' = initial_balance st"
  using enter_trade_cases[OF assms] by auto

lemma enter_trade_lots:
  assumes "enter_trade strat cfg z st dir b i = Inr st'" "position st = None"
    "position st' = Some p" "MIN_LOT cfg \<le> MAX_LOT cfg"
  shows "MIN_LOT cfg \<le> lots p \<and> lots p \<le> MAX_LOT cfg"
  using assms
  by (auto simp: enter_trade_def Let_def split: prod.splits if_splits)

lemma enter_trade_skips:
  assumes "0 \<le> spread_of cfg"
    "risk_per_lot_of cfg \<bar>fill_price_of cfg z dir b - fst (stops_of strat b dir)\<bar> \<le> 0"
  shows "enter_trade strat cfg z st dir b i = Inr st"
  using assms
  by (auto simp: enter_trade_def Let_def split: prod.splits if_splits)

lemma position_size_range:
  "0.01 \<le> calculate_position_size mt smb sl side rp
   \<and> calculate_position_size mt smb sl side rp \<le> 5"
  by (auto simp: calculate_position_size_def Let_def split: option.splits prod.splits)

lemma position_size_unavailable:
  "account_info mt = None \<or> symbol_info_tick mt = None \<or> symbol_info mt = None
     \<Longrightarrow> calculate_position_size mt smb sl side rp = 0.01"
  by (auto simp: calculate_position_size_def Let_def split: option.splits prod.splits)

lemma position_size_no_risk:
  "symbol_info_tick mt = Some (ask, bid) \<Longrightarrow> symbol_info mt = Some cs \<Longrightarrow>
   rm_risk_per_lot smb \<bar>(if side = ''buy'' then ask else bid) - sl\<bar> cs \<le> 0
     \<Longrightarrow> calculate_position_size mt smb sl side rp = 0.01"
  by (auto simp: calculate_position_size_def Let_def split: option.splits prod.splits)

lemma position_size_no_distance:
  "symbol_info_tick mt = Some (ask, bid) \<Longrightarrow> (if side = ''buy'' then ask else bid) = sl
     \<Longrightarrow> calculate_position_size mt smb sl side rp = 0.01"
  by (auto simp: calculate_position_size_def Let_def split: option.splits prod.splits)

lemma check_entry_cases:
  assumes "check_entry_conditions strat cfg z st b prev i = Inr st'"
  shows "st' = st \<or> (\<exists>dir. enter_trade strat cfg z st dir b i = Inr st')"
  using assms
  by (cases "calculate_confirmations strat prev")
     (auto simp: check_entry_conditions_def Let_def split: if_splits)

lemma check_entry_keeps:
  assumes "check_entry_conditions strat cfg z st b prev i = Inr st'"
  shows "trades st' = trades st \<and> current_balance st' = current_balance st
          \<and> equity_curve st' = equity_curve st \<and> initial_balance st' = initial_balance st"
  using check_entry_cases[OF assms] enter_trade_keeps by blast

lemma exit_trade_effect:
  assumes "exit_trade cfg st b r = Inr st'"
  shows "\<exists>t. trades st' = trades st @ [t] \<and> exit_reason t = r
            \<and> current_balance st' = b64_add (current_balance st) (pnl t)
            \<and> position st' = None \<and> equity_curve st' = equity_curve st
            \<and> initial_balance st' = initial_balance st"
  using assms by (auto simp: exit_trade_def Let_def split: option.splits)

lemma exit_trade_returns:
  "position st = Some p \<Longrightarrow> \<exists>st'. exit_trade cfg st b r = Inr st'"
  by (simp add: exit_trade_def Let_def)

lemma process_bar_effect:
  assumes "process_bar strat cfg noise data st i = Inr st'"
  shows "equity_curve st' = equity_curve st
           @ [\<lparr>point_timestamp = timestamp (data ! i), equity = current_balance st'\<rparr>]
         \<and> initial_balance st' = initial_balance st
         \<and> ((trades st' = trades st \<and> current_balance st' = current_balance st)
            \<or> (\<exists>t r. position st \<noteq> None \<and> check_exit_conditions cfg st (data ! i) = Some r
                  \<and> exit_reason t = r \<and> trades st' = trades st @ [t]
                  \<and> current_balance st' = b64_add (current_balance st) (pnl t)))"
proof -
  let ?b = "data ! i"
  define after_exit where "after_exit =
            (case position st of
               None \<Rightarrow> Inr st
             | Some p \<Rightarrow>
                 (case check_exit_conditions cfg st ?b of
                    None \<Rightarrow> Inr st
                  | Some exit_signal \<Rightarrow> exit_trade cfg st ?b exit_signal))"
  from assms obtain st1 where st1: "after_exit = Inr st1"
    by (auto simp: process_bar_def Let_def after_exit_def[symmetric] split: sum.splits)
  define entered where "entered =
     (case position st1 of
        None \<Rightarrow> check_entry_conditions strat cfg (noise i) st1 ?b (take (Suc i) data) i
      | Some p \<Rightarrow> Inr st1)"
  from assms st1 obtain st2 where st2: "entered = Inr st2"
    and fin: "st' = update_equity_curve st2 ?b"
    by (auto simp: process_bar_def Let_def after_exit_def[symmetric] entered_def
          split: sum.splits)
  have k2: "trades st2 = trades st1 \<and> current_balance st2 = current_balance st1
          \<and> equity_curve st2 = equity_curve st1 \<and> initial_balance st2 = initial_balance st1"
    using st2 check_entry_keeps unfolding entered_def by (auto split: option.splits)
  have k1: "st1 = st \<or> (\<exists>r. position st \<noteq> None \<and> check_exit_conditions cfg st ?b = Some r
               \<and> exit_trade cfg st ?b r = Inr st1)"
    using st1 unfolding after_exit_def by (auto split: option.splits)
  from k1 show ?thesis
  proof
    assume "st1 = st"
    with k2 fin show ?thesis by (simp add: update_equity_curve_def)
  next
    assume "\<exists>r. position st \<noteq> None \<and> check_exit_conditions cfg st ?b = Some r
               \<and> exit_trade cfg st ?b r = Inr st1"
    then obtain r where r: "position st \<noteq> None" "check_exit_conditions cfg st ?b = Some r"
      "exit_trade cfg st ?b r = Inr st1" by blast
    from exit_trade_effect[OF r(3)] obtain t where t: "trades st1 = trades st @ [t]"
      "exit_reason t = r" "current_balance st1 = b64_add (current_balance st) (pnl t)"
      "equity_curve st1 = equity_curve st" "initial_balance st1 = initial_balance st"
      by blast
    with k2 fin r show ?thesis by (simp add: update_equity_curve_def)
  qed
qed

lemma process_bar_holding:
  assumes "position st = Some p" "check_exit_conditions cfg st (data ! i) = None"
  shows "process_bar strat cfg noise data st i
           = Inr (st\<lparr>equity_curve := equity_curve st
                @ [\<lparr>point_timestamp = timestamp (data ! i), equity = current_balance st\<rparr>]\<rparr>)"
  using assms by (simp add: process_bar_def Let_def update_equity_curve_def)



lemma run_loop_length:
  "run_loop strat cfg noise data st is = Inr st' \<Longrightarrow>
     length (equity_curve st') = length (equity_curve st) + length is"
proof (induction "is" arbitrary: st)
  case Nil
  then show ?case by simp
next
  case (Cons i rest)
  from Cons.prems obtain st1 where s: "process_bar strat cfg noise data st i = Inr st1"
    "run_loop strat cfg noise data st1 rest = Inr st'" by (auto split: sum.splits)
  from process_bar_effect[OF s(1)]
  have "length (equity_curve st1) = length (equity_curve st) + 1" by simp
  with Cons.IH[OF s(2)] show ?case by simp
qed

lemma reset_conserved:
  "reset initial data = Inr st \<Longrightarrow>
     conserved st \<and> initial_balance st = initial \<and> length (equity_curve st) = 1"
  by (auto simp: reset_def conserved_def split: list.splits)

lemma xabs_fdiv: "xabs (fdiv a b) = fdiv \<bar>a\<bar> \<bar>b\<bar>"
  by (auto simp: fdiv_def)


lemma b64_round_binade:
  assumes "2 ^ n \<le> \<bar>x\<bar>" "\<bar>x\<bar> < 2 ^ (n + 1)"
  shows "b64_round x = of_int (round_half_even (x * 2 ^ 52 / 2 ^ n)) * 2 ^ n / 2 ^ 52"
proof -
  have "(0::real) < 2 ^ n" by simp
  with assms(1) have pos: "0 < \<bar>x\<bar>" by linarith
  then have nz: "x \<noteq> 0" by simp
  have e: "\<lfloor>log 2 \<bar>x\<bar>\<rfloor> = int n"
    using assms pos by (simp add: floor_log_eq_powr_iff powr_realpow powr_add)
  have q: "(2::real) powr (of_int (int n) - 52) = 2 ^ n / 2 ^ 52"
    by (simp add: powr_diff powr_realpow)
  from nz have "b64_round x
      = of_int (round_half_even (x / 2 powr (of_int \<lfloor>log 2 \<bar>x\<bar>\<rfloor> - 52)))
          * 2 powr (of_int \<lfloor>log 2 \<bar>x\<bar>\<rfloor> - 52)"
    unfolding b64_round_def Let_def by (rule if_not_P)
  also have "\<dots> = of_int (round_half_even (x / (2 ^ n / 2 ^ 52))) * (2 ^ n / 2 ^ 52)"
    unfolding e q ..
  also have "\<dots> = of_int (round_half_even (x * 2 ^ 52 / 2 ^ n)) * 2 ^ n / 2 ^ 52"
    by simp
  finally show ?thesis .
qed


text \<open>The additions of the worked run are exact; those of the two-trade engine round.\<close>

lemma example_balance_sum: "b64_add 10000 (5993 / 4) = 45993 / 4"
  unfolding b64_add_def
  by (subst b64_round_binade[of 13]) (simp_all add: round_half_even_def)

lemma example_pnl_sum: "b64_add 0 (5993 / 4) = 5993 / 4"
  unfolding b64_add_def
  by (subst b64_round_binade[of 10]) (simp_all add: round_half_even_def)







lemma upt_example: "[100..<102] = [100, 101::nat]"
  by (simp add: upt_rec)

lemmas engine_defs = process_bar_def check_entry_conditions_def enter_trade_def stops_of_def
  spread_of_def fill_price_of_def risk_per_lot_of_def base_calculate_sl_tp_def round2_def
  round_half_even_def check_exit_conditions_def exit_trade_def update_equity_curve_def

lemmas example_defs = example_strategy_def example_config_def example_flat_def
  example_data_def example_position_def example_trade_def example_final_def

lemma example_entry:
  "check_entry_conditions example_strategy example_config 0 example_flat
     \<lparr>timestamp = 3600, close = 1800, ATR = Some 10\<rparr> (take 101 example_data) 100
   = Inr (example_flat\<lparr>position := Some example_position\<rparr>)"
  by (simp add: engine_defs example_defs)

lemma example_first_bar:
  "process_bar example_strategy example_config (\<lambda>i. 0) example_data example_flat 100
   = Inr (example_flat\<lparr>position := Some example_position,
            equity_curve := [\<lparr>point_timestamp = 0, equity = 10000\<rparr>,
                             \<lparr>point_timestamp = 3600, equity = 10000\<rparr>]\<rparr>)"
  by (simp add: engine_defs example_defs nth_append)

lemma example_simulate:
  "simulate example_strategy example_config (\<lambda>i. 0) 10000 example_data = Inr example_final"
  by (simp add: simulate_def reset_def engine_defs example_defs nth_append upt_example
        example_balance_sum)

lemma example_report:
  "run_backtest example_strategy example_config (\<lambda>i. 0) 10000 example_data
   = Inr (Report example_report_record)"
  by (simp add: run_backtest_def example_simulate generate_report_def example_final_def
        example_trade_def example_report_record_def calculate_drawdown_def fdiv_def
        profit_factor_of_def mean_def float_sum_def example_pnl_sum)

text \<open>
  C1. When the engine is flat and \<open>check_entry_conditions\<close> leaves it with a position,
  the position's direction has a confirmation score of at least \<open>MIN_CONFIRMATIONS\<close>
  that is strictly greater than the other direction's score. When the two scores are
  equal, the state is returned unchanged: no entry is taken.
\<close>

theorem entry_needs_strict_majority:
  "(position st = None \<and> check_entry_conditions strat cfg z st b prev i = Inr st'
      \<and> position st' = Some p \<longrightarrow>
      (direction p = ''buy''
         \<and> MIN_CONFIRMATIONS cfg \<le> fst (calculate_confirmations strat prev)
         \<and> snd (calculate_confirmations strat prev) < fst (calculate_confirmations strat prev))
      \<or> (direction p = ''sell''
         \<and> MIN_CONFIRMATIONS cfg \<le> snd (calculate_confirmations strat prev)
         \<and> fst (calculate_confirmations strat prev) < snd (calculate_confirmations strat prev)))
   \<and> (fst (calculate_confirmations strat prev) = snd (calculate_confirmations strat prev) \<longrightarrow>
        check_entry_conditions strat cfg z st b prev i = Inr st)"
proof (intro conjI impI)
  assume a: "position st = None \<and> check_entry_conditions strat cfg z st b prev i = Inr st'
      \<and> position st' = Some p"
  obtain bs ss where cs: "calculate_confirmations strat prev = (bs, ss)"
    by (cases "calculate_confirmations strat prev")
  show "(direction p = ''buy''
         \<and> MIN_CONFIRMATIONS cfg \<le> fst (calculate_confirmations strat prev)
         \<and> snd (calculate_confirmations strat prev) < fst (calculate_confirmations strat prev))
      \<or> (direction p = ''sell''
         \<and> MIN_CONFIRMATIONS cfg \<le> snd (calculate_confirmations strat prev)
         \<and> fst (calculate_confirmations strat prev) < snd (calculate_confirmations strat prev))"
  proof (cases "MIN_CONFIRMATIONS cfg \<le> bs \<and> ss < bs")
    case True
    with a cs have "enter_trade strat cfg z st ''buy'' b i = Inr st'"
      by (simp add: check_entry_conditions_def)
    from enter_trade_cases[OF this] a have "direction p = ''buy''" by auto
    with True cs show ?thesis by simp
  next
    case False
    show ?thesis
    proof (cases "MIN_CONFIRMATIONS cfg \<le> ss \<and> bs < ss")
      case True
      with False a cs have "enter_trade strat cfg z st ''sell'' b i = Inr st'"
        by (auto simp add: check_entry_conditions_def)
      from enter_trade_cases[OF this] a have "direction p = ''sell''" by auto
      with True cs show ?thesis by simp
    next
      case F2: False
      with False a cs have "st' = st" by (auto simp: check_entry_conditions_def)
      with a show ?thesis by auto
    qed
  qed
next
  assume "fst (calculate_confirmations strat prev) = snd (calculate_confirmations strat prev)"
  then show "check_entry_conditions strat cfg z st b prev i = Inr st"
    by (cases "calculate_confirmations strat prev") (simp add: check_entry_conditions_def)
qed

theorem entry_needs_strict_majority_witness:
  "check_entry_conditions example_strategy example_config 0 example_flat
     \<lparr>timestamp = 3600, close = 1800, ATR = Some 10\<rparr> (take 101 example_data) 100
     = Inr (example_flat\<lparr>position := Some example_position\<rparr>)
   \<and> direction example_position = ''buy''
   \<and> calculate_confirmations example_strategy (take 101 example_data) = (3, 1)
   \<and> MIN_CONFIRMATIONS example_config = 3
   \<and> calculate_confirmations example_strategy (take 100 example_data) = (0, 0)
   \<and> check_entry_conditions example_strategy example_config 0 example_flat
       \<lparr>timestamp = 0, close = 1800, ATR = Some 10\<rparr> (take 100 example_data) 99
     = Inr example_flat"
  using entry_needs_strict_majority
          [of example_flat example_strategy example_config 0
              "\<lparr>timestamp = 3600, close = 1800, ATR = Some 10\<rparr>" "take 101 example_data" 100
              "example_flat\<lparr>position := Some example_position\<rparr>" example_position]
        entry_needs_strict_majority
          [of example_flat example_strategy example_config 0
              "\<lparr>timestamp = 0, close = 1800, ATR = Some 10\<rparr>" "take 100 example_data" 99
              example_flat example_position]
        example_entry
  by (simp add: example_defs)

text \<open>
  C2, as the code has it. \<open>RiskManager.calculate_position_size\<close> returns, for every
  equity, risk percent, price and stop-loss price, a lot size between its minimum lot
  0.01 and its maximum lot 5.0, and exactly 0.01 when the account, the tick or the symbol
  information is unavailable, when the price equals the stop, or when the risk per lot is
  not positive. \<open>BacktestEngine.enter_trade\<close> gives every position it opens a lot size
  between the configured \<open>MIN_LOT\<close> and \<open>MAX_LOT\<close> (given \<open>MIN_LOT \<le> MAX_LOT\<close>),
  and when the risk per lot is not positive it returns without opening a position.
\<close>

theorem position_size_clamped:
  "0.01 \<le> calculate_position_size mt smb sl side rp
   \<and> calculate_position_size mt smb sl side rp \<le> 5
   \<and> (account_info mt = None \<or> symbol_info_tick mt = None \<or> symbol_info mt = None \<longrightarrow>
        calculate_position_size mt smb sl side rp = 0.01)
   \<and> (\<forall>ask bid. symbol_info_tick mt = Some (ask, bid)
          \<and> (if side = ''buy'' then ask else bid) = sl \<longrightarrow>
        calculate_position_size mt smb sl side rp = 0.01)
   \<and> (\<forall>ask bid cs. symbol_info_tick mt = Some (ask, bid) \<and> symbol_info mt = Some cs
          \<and> rm_risk_per_lot smb \<bar>(if side = ''buy'' then ask else bid) - sl\<bar> cs \<le> 0 \<longrightarrow>
        calculate_position_size mt smb sl side rp = 0.01)
   \<and> (\<forall>st' p. enter_trade strat cfg z st dir b i = Inr st' \<and> position st = None
          \<and> position st' = Some p \<and> MIN_LOT cfg \<le> MAX_LOT cfg \<longrightarrow>
        MIN_LOT cfg \<le> lots p \<and> lots p \<le> MAX_LOT cfg)
   \<and> (0 \<le> spread_of cfg
        \<and> risk_per_lot_of cfg \<bar>fill_price_of cfg z dir b - fst (stops_of strat b dir)\<bar> \<le> 0 \<longrightarrow>
        enter_trade strat cfg z st dir b i = Inr st)"
  using position_size_range[of mt smb sl side rp]
        position_size_unavailable[of mt smb sl side rp]
        position_size_no_distance[of mt _ _ side sl smb rp]
        position_size_no_risk[of mt _ _ _ smb side sl rp]
        enter_trade_lots[of strat cfg z st dir b i]
        enter_trade_skips[of cfg z dir b strat st i]
  by blast

theorem position_size_clamped_witness:
  "calculate_position_size
     \<lparr>account_info = Some 10000, symbol_info_tick = Some (1800.2, 1800), symbol_info = Some 100\<rparr>
     ''XAUUSD'' 1785.2 ''buy'' 0.3 = 0.02
   \<and> calculate_position_size
     \<lparr>account_info = None, symbol_info_tick = Some (1800.2, 1800), symbol_info = Some 100\<rparr>
     ''XAUUSD'' 1785.2 ''buy'' 0.3 = 0.01
   \<and> enter_trade example_strategy example_config 0 example_flat ''buy''
       \<lparr>timestamp = 3600, close = 1800, ATR = Some 10\<rparr> 100
     = Inr (example_flat\<lparr>position := Some example_position\<rparr>)
   \<and> MIN_LOT example_config \<le> lots example_position
   \<and> lots example_position \<le> MAX_LOT example_config"
  using position_size_clamped
          [of "\<lparr>account_info = Some 10000, symbol_info_tick = Some (1800.2, 1800),
                symbol_info = Some 100\<rparr>" "''XAUUSD''" "1785.2" "''buy''" "0.3"
              example_strategy example_config 0 example_flat "''buy''"
              "\<lparr>timestamp = 3600, close = 1800, ATR = Some 10\<rparr>" 100]
        position_size_clamped
          [of "\<lparr>account_info = None, symbol_info_tick = Some (1800.2, 1800),
                symbol_info = Some 100\<rparr>" "''XAUUSD''" "1785.2" "''buy''" "0.3"
              example_strategy example_config 0 example_flat "''buy''"
              "\<lparr>timestamp = 3600, close = 1800, ATR = Some 10\<rparr>" 100]
  by (simp add: calculate_position_size_def rm_risk_per_lot_def engine_defs example_defs)

text \<open>
  C2 as stated fails in the engine: on a bar whose ATR is 0, with no simulated spread,
  the fill price equals the stop, the risk per lot is 0, and \<open>enter_trade\<close> returns
  with the engine still flat: no lot size, not the minimum lot.
\<close>

theorem enter_trade_zero_distance_counterexample:
  "enter_trade example_strategy example_config 0 example_flat ''buy''
     \<lparr>timestamp = 3600, close = 1800, ATR = Some 0\<rparr> 100 = Inr example_flat
   \<and> position example_flat = None"
  by (simp add: engine_defs example_defs)

text \<open>
  C6. With a position open, \<open>check_exit_conditions\<close> is decided by the first rule that
  fires in the order stop-loss, take-profit, time: a stop-loss hit gives \<open>sl\<close> whatever
  the other two rules say, a take-profit hit gives \<open>tp\<close> whatever the time rule says,
  and \<open>time\<close> is returned only when neither price rule fires. The reason returned is
  the one \<open>exit_trade\<close> records, and it is the reason of the trade the main loop appends
  on that bar.
\<close>

theorem exit_first_match_wins:
  assumes "position st = Some p"
  shows "check_exit_conditions cfg st b =
     (let sl_hit = (if direction p = ''buy'' then close b \<le> sl_price p
                    else sl_price p \<le> close b);
          tp_hit = (if direction p = ''buy'' then tp_price p \<le> close b
                    else close b \<le> tp_price p);
          timed_out = ((case MAX_TRADE_HOURS cfg of Some h \<Rightarrow> h | None \<Rightarrow> 72)
                         \<le> (timestamp b - entry_time p) / 3600)
      in if sl_hit then Some ''sl'' else if tp_hit then Some ''tp''
         else if timed_out then Some ''time'' else None)
   \<and> (\<forall>r. \<exists>st' t. exit_trade cfg st b r = Inr st' \<and> trades st' = trades st @ [t]
          \<and> exit_reason t = r)
   \<and> (\<forall>r st' data i noise strat. check_exit_conditions cfg st (data ! i) = Some r
          \<and> process_bar strat cfg noise data st i = Inr st' \<longrightarrow>
          (\<exists>t. trades st' = trades st @ [t] \<and> exit_reason t = r))"
proof (intro conjI allI impI)
  show "check_exit_conditions cfg st b =
     (let sl_hit = (if direction p = ''buy'' then close b \<le> sl_price p
                    else sl_price p \<le> close b);
          tp_hit = (if direction p = ''buy'' then tp_price p \<le> close b
                    else close b \<le> tp_price p);
          timed_out = ((case MAX_TRADE_HOURS cfg of Some h \<Rightarrow> h | None \<Rightarrow> 72)
                         \<le> (timestamp b - entry_time p) / 3600)
      in if sl_hit then Some ''sl'' else if tp_hit then Some ''tp''
         else if timed_out then Some ''time'' else None)"
    using assms by (simp add: check_exit_conditions_def Let_def)
next
  fix r
  from exit_trade_returns[OF assms] obtain st' where s: "exit_trade cfg st b r = Inr st'"
    by blast
  from exit_trade_effect[OF s] s
  show "\<exists>st' t. exit_trade cfg st b r = Inr st' \<and> trades st' = trades st @ [t]
          \<and> exit_reason t = r" by blast
next
  fix r st' data i noise strat
  assume a: "check_exit_conditions cfg st (data ! i) = Some r
          \<and> process_bar strat cfg noise data st i = Inr st'"
  from process_bar_effect[of strat cfg noise data st i st'] a
  have "(trades st' = trades st \<and> current_balance st' = current_balance st)
            \<or> (\<exists>t. exit_reason t = r \<and> trades st' = trades st @ [t])" by auto
  moreover have "trades st' \<noteq> trades st"
  proof -
    from exit_trade_returns[OF assms] obtain st1 where
      s1: "exit_trade cfg st (data ! i) r = Inr st1" by blast
    from exit_trade_effect[OF s1] obtain t where t: "trades st1 = trades st @ [t]"
      "position st1 = None" by blast
    from a assms s1 obtain st2 where
      "check_entry_conditions strat cfg (noise i) st1 (data ! i) (take (Suc i) data) i = Inr st2"
      "st' = update_equity_curve st2 (data ! i)"
      using t(2) by (auto simp: process_bar_def Let_def split: sum.splits)
    with check_entry_keeps[of strat cfg "noise i" st1 "data ! i" "take (Suc i) data" i st2] t
    show ?thesis by (simp add: update_equity_curve_def)
  qed
  ultimately show "\<exists>t. trades st' = trades st @ [t] \<and> exit_reason t = r" by blast
qed

theorem exit_first_match_wins_witness:
  "position (example_flat\<lparr>position := Some example_position\<rparr>) = Some example_position
   \<and> check_exit_conditions example_config (example_flat\<lparr>position := Some example_position\<rparr>)
       \<lparr>timestamp = 3600000, close = 1780, ATR = Some 10\<rparr> = Some ''sl''
   \<and> check_exit_conditions example_config (example_flat\<lparr>position := Some example_position\<rparr>)
       \<lparr>timestamp = 3600000, close = 1830, ATR = Some 10\<rparr> = Some ''tp''
   \<and> check_exit_conditions example_config (example_flat\<lparr>position := Some example_position\<rparr>)
       \<lparr>timestamp = 3600000, close = 1800, ATR = Some 10\<rparr> = Some ''time''"
proof -
  have h: "position (example_flat\<lparr>position := Some example_position\<rparr>) = Some example_position"
    by simp
  from exit_first_match_wins[OF h, of example_config
         "\<lparr>timestamp = 3600000, close = 1780, ATR = Some 10\<rparr>"]
       exit_first_match_wins[OF h, of example_config
         "\<lparr>timestamp = 3600000, close = 1830, ATR = Some 10\<rparr>"]
       exit_first_match_wins[OF h, of example_config
         "\<lparr>timestamp = 3600000, close = 1800, ATR = Some 10\<rparr>"]
  show ?thesis by (simp add: example_defs)
qed

text \<open>
  C7. Processing a bar appends exactly one equity point, stamped with the bar's time and
  holding the realized balance. If no trade was closed on the bar the balance, and so the
  recorded equity, is what it was, and otherwise the closed trade's PnL was added to it; in particular, while a position stays open (no exit
  rule fires) the bar leaves position and balance untouched and records the balance the
  position was entered with. Over a whole run the curve has the initial point and one
  point for each bar from index 100 on.
\<close>

theorem one_equity_point_per_bar:
  "(process_bar strat cfg noise data st i = Inr st' \<longrightarrow>
      equity_curve st' = equity_curve st
        @ [\<lparr>point_timestamp = timestamp (data ! i), equity = current_balance st'\<rparr>]
      \<and> (trades st' = trades st \<longrightarrow> current_balance st' = current_balance st)
      \<and> (trades st' \<noteq> trades st \<longrightarrow>
           (\<exists>t. trades st' = trades st @ [t]
                \<and> current_balance st' = b64_add (current_balance st) (pnl t))))
   \<and> (position st = Some p \<and> check_exit_conditions cfg st (data ! i) = None \<longrightarrow>
        process_bar strat cfg noise data st i
          = Inr (st\<lparr>equity_curve := equity_curve st
               @ [\<lparr>point_timestamp = timestamp (data ! i), equity = current_balance st\<rparr>]\<rparr>))
   \<and> (simulate strat cfg noise initial data = Inr final \<longrightarrow>
        length (equity_curve final) = 1 + (length data - 100))"
proof (intro conjI impI)
  assume a: "process_bar strat cfg noise data st i = Inr st'"
  from process_bar_effect[OF a]
  show "equity_curve st' = equity_curve st
        @ [\<lparr>point_timestamp = timestamp (data ! i), equity = current_balance st'\<rparr>]"
    by simp
  from process_bar_effect[OF a]
  show "current_balance st' = current_balance st" if "trades st' = trades st"
    using that by auto
  from process_bar_effect[OF a]
  show "\<exists>t. trades st' = trades st @ [t]
          \<and> current_balance st' = b64_add (current_balance st) (pnl t)"
    if "trades st' \<noteq> trades st"
    using that by auto
next
  assume "position st = Some p \<and> check_exit_conditions cfg st (data ! i) = None"
  then show "process_bar strat cfg noise data st i
          = Inr (st\<lparr>equity_curve := equity_curve st
               @ [\<lparr>point_timestamp = timestamp (data ! i), equity = current_balance st\<rparr>]\<rparr>)"
    using process_bar_holding by blast
next
  assume a: "simulate strat cfg noise initial data = Inr final"
  then obtain st0 where s: "reset initial data = Inr st0"
    "run_loop strat cfg noise data st0 [100..<length data] = Inr final"
    by (auto simp: simulate_def split: sum.splits)
  from reset_conserved[OF s(1)] run_loop_length[OF s(2)]
  show "length (equity_curve final) = 1 + (length data - 100)" by simp
qed

theorem one_equity_point_per_bar_witness:
  "simulate example_strategy example_config (\<lambda>i. 0) 10000 example_data = Inr example_final
   \<and> length (equity_curve example_final) = 1 + (length example_data - 100)
   \<and> process_bar example_strategy example_config (\<lambda>i. 0) example_data example_flat 100
     = Inr (example_flat\<lparr>position := Some example_position,
              equity_curve := [\<lparr>point_timestamp = 0, equity = 10000\<rparr>,
                               \<lparr>point_timestamp = 3600, equity = 10000\<rparr>]\<rparr>)
   \<and> process_bar example_strategy example_config (\<lambda>i. 0) example_data
       (example_flat\<lparr>position := Some example_position\<rparr>) 100
     = Inr (example_flat\<lparr>position := Some example_position,
              equity_curve := [\<lparr>point_timestamp = 0, equity = 10000\<rparr>,
                               \<lparr>point_timestamp = 3600, equity = 10000\<rparr>]\<rparr>)"
  using one_equity_point_per_bar
          [of example_strategy example_config "\<lambda>i. 0" example_data example_flat 100
              "example_flat\<lparr>position := Some example_position,
                 equity_curve := [\<lparr>point_timestamp = 0, equity = 10000\<rparr>,
                                  \<lparr>point_timestamp = 3600, equity = 10000\<rparr>]\<rparr>"
              example_position 10000 example_final]
        one_equity_point_per_bar
          [of example_strategy example_config "\<lambda>i. 0" example_data
              "example_flat\<lparr>position := Some example_position\<rparr>" 100
              "example_flat\<lparr>position := Some example_position,
                 equity_curve := [\<lparr>point_timestamp = 0, equity = 10000\<rparr>,
                                  \<lparr>point_timestamp = 3600, equity = 10000\<rparr>]\<rparr>"
              example_position 10000 example_final]
        example_simulate example_first_bar
  by (simp add: example_defs check_exit_conditions_def nth_append)




text \<open>
  C8. The profit factor the engine reports and the one the performance tracker stores
  are \<open>|avg_win * winCount| / |avg_loss * lossCount|\<close> computed on the report's own
  averages and counts, and exactly positive infinity when no trade of the log has a PnL
  of zero or less. The division is numpy's: when every losing trade has a PnL of exactly
  zero the divisor is zero and the quotient is an infinity or NaN, on both sides of the
  equation.
\<close>

theorem profit_factor_formula:
  "profit_factor_of pnls = spec_profit_factor pnls
   \<and> (filter (\<lambda>x. x \<le> 0) pnls = [] \<longrightarrow> profit_factor_of pnls = PosInf)
   \<and> (generate_report st = Inr (Report r) \<longrightarrow>
        profit_factor r = spec_profit_factor (map pnl (trades st))
        \<and> profit_factor r =
            (if losing_trades r = 0 then PosInf
             else fdiv \<bar>avg_win r * real (winning_trades r)\<bar>
                       \<bar>avg_loss r * real (losing_trades r)\<bar>))
   \<and> (trade_log \<noteq> [] \<longrightarrow>
        calculate_stats_profit_factor trade_log
          = Some (spec_profit_factor (map pnl trade_log)))"
proof (intro conjI impI)
  show e: "profit_factor_of pnls = spec_profit_factor pnls" for pnls
    by (simp add: profit_factor_of_def spec_profit_factor_def Let_def xabs_fdiv)
  show "profit_factor_of pnls = PosInf" if "filter (\<lambda>x. x \<le> 0) pnls = []"
    using that by (simp add: profit_factor_of_def Let_def)
  show "calculate_stats_profit_factor trade_log
          = Some (spec_profit_factor (map pnl trade_log))" if "trade_log \<noteq> []"
    using that e by (simp add: calculate_stats_profit_factor_def)
  assume a: "generate_report st = Inr (Report r)"
  then have f: "profit_factor r = profit_factor_of (map pnl (trades st))"
    "winning_trades r = length (filter (\<lambda>x. 0 < x) (map pnl (trades st)))"
    "losing_trades r = length (filter (\<lambda>x. x \<le> 0) (map pnl (trades st)))"
    "avg_win r = (if filter (\<lambda>x. 0 < x) (map pnl (trades st)) \<noteq> []
                  then mean (filter (\<lambda>x. 0 < x) (map pnl (trades st))) else 0)"
    "avg_loss r = (if filter (\<lambda>x. x \<le> 0) (map pnl (trades st)) \<noteq> []
                   then mean (map abs (filter (\<lambda>x. x \<le> 0) (map pnl (trades st)))) else 0)"
    by (auto simp add: generate_report_def Let_def simp del: filter_map length_filter_map
          split: if_splits sum.splits prod.splits)
  from f(1) e show "profit_factor r = spec_profit_factor (map pnl (trades st))" by simp
  define ps where "ps = map pnl (trades st)"
  note g = f[folded ps_def]
  from g show "profit_factor r =
            (if losing_trades r = 0 then PosInf
             else fdiv \<bar>avg_win r * real (winning_trades r)\<bar>
                       \<bar>avg_loss r * real (losing_trades r)\<bar>)"
    by (simp add: profit_factor_of_def Let_def xabs_fdiv)
qed

theorem profit_factor_formula_witness:
  "profit_factor_of [59.93] = PosInf
   \<and> profit_factor_of [30, -10, 20, -15] = Fin 2
   \<and> profit_factor_of [30, 0] = PosInf
   \<and> profit_factor_of [0] = NaN
   \<and> calculate_stats_profit_factor [example_trade] = Some PosInf
   \<and> (\<exists>r. generate_report example_final = Inr (Report r) \<and> profit_factor r = PosInf
          \<and> losing_trades r = 0)"
proof -
  have g: "generate_report example_final = Inr (Report example_report_record)"
    using example_simulate example_report by (simp add: run_backtest_def)
  from profit_factor_formula[of "[59.93]" example_final example_report_record
         "[example_trade]"] g
  have a: "profit_factor_of [59.93] = PosInf"
    "calculate_stats_profit_factor [example_trade] = Some PosInf"
    by (simp_all add: spec_profit_factor_def example_trade_def)
  have c: "profit_factor example_report_record = PosInf"
    "losing_trades example_report_record = 0"
    by (simp_all add: example_report_record_def)
  have b: "profit_factor_of [30, -10, 20, -15] = Fin 2" "profit_factor_of [30, 0] = PosInf"
    "profit_factor_of [0] = NaN"
    by (simp_all add: profit_factor_of_def mean_def fdiv_def)
  from a b c g show ?thesis by auto
qed

section \<open>Properties of the optimizer\<close>

lemma xless_irrefl: "\<not> xless a a"
  by (cases a) simp_all

lemma xless_trans: "xless a b \<Longrightarrow> xless b c \<Longrightarrow> xless a c"
  by (cases a; cases b; cases c) simp_all

lemma length_itertools_product:
  "length (itertools_product xss) = prod_list (map length xss)"
proof (induction xss)
  case Nil
  show ?case by simp
next
  case (Cons xs xss)
  have "length (itertools_product (xs # xss))
          = sum_list (map (\<lambda>x. length (itertools_product xss)) xs)"
    by (simp add: length_concat comp_def)
  also have "\<dots> = length xs * length (itertools_product xss)"
    by (simp add: sum_list_triv)
  finally show ?case using Cons.IH by simp
qed

lemma length_combinations:
  "length (generate_parameter_combinations grid) = prod_list (map (length \<circ> snd) grid)"
  by (simp add: generate_parameter_combinations_def Let_def length_itertools_product)

lemma metric_is_number:
  assumes "metric \<noteq> ''trades''" "metric \<noteq> ''equity_curve''"
  shows "\<exists>s. calculate_metric (Report r) metric = Number s"
  using assms
  by (simp add: calculate_metric_def get_or_zero_def result_get_def)

lemma optimize_loop_results:
  "optimize_loop backtest metric acc es = Inr out \<Longrightarrow>
     (\<forall>(i, ps) \<in> set es. \<exists>res. backtest i ps = Inr res)
     \<and> (\<exists>new. all_results out = all_results acc @ new
           \<and> map params new
               = map snd (filter (\<lambda>(i, ps). backtest i ps \<noteq> Inr NoTradesExecuted) es)
           \<and> (\<forall>t \<in> set new. \<exists>i. (i, params t) \<in> set es
                 \<and> backtest i (params t) = Inr (Report (result t))
                 \<and> calculate_metric (Report (result t)) metric = Number (score t)))"
proof (induction es arbitrary: acc)
  case Nil
  then show ?case by simp
next
  case (Cons e es)
  obtain i ps where e: "e = (i, ps)" by (cases e)
  from Cons.prems e obtain res where res: "backtest i ps = Inr res"
    by (cases "backtest i ps") auto
  show ?case
  proof (cases res)
    case NoTradesExecuted
    with Cons.prems e res have "optimize_loop backtest metric acc es = Inr out" by simp
    from Cons.IH[OF this] obtain new where new:
      "\<forall>(i, ps) \<in> set es. \<exists>res. backtest i ps = Inr res"
      "all_results out = all_results acc @ new"
      "map params new = map snd (filter (\<lambda>(i, ps). backtest i ps \<noteq> Inr NoTradesExecuted) es)"
      "\<forall>t \<in> set new. \<exists>i. (i, params t) \<in> set es
                 \<and> backtest i (params t) = Inr (Report (result t))
                 \<and> calculate_metric (Report (result t)) metric = Number (score t)"
      by blast
    from new(4) have "\<forall>t \<in> set new. \<exists>j. (j, params t) \<in> set (e # es)
                 \<and> backtest j (params t) = Inr (Report (result t))
                 \<and> calculate_metric (Report (result t)) metric = Number (score t)"
      by auto
    with new(1,2,3) e res NoTradesExecuted show ?thesis by auto
  next
    case (Report r)
    with Cons.prems e res obtain s where s: "calculate_metric (Report r) metric = Number s"
      by (cases "calculate_metric (Report r) metric") auto
    define t0 :: "'a trial" where "t0 = \<lparr>params = ps, score = s, result = r\<rparr>"
    define acc1 where "acc1 = acc\<lparr>all_results := all_results acc @ [t0]\<rparr>"
    define acc2 where "acc2 = (if xless (best_score acc1) s
                            then acc1\<lparr>best_score := s, best_params := Some ps,
                                      best_result := Some r\<rparr>
                            else acc1)"
    from Cons.prems e res Report s
    have l: "optimize_loop backtest metric acc2 es = Inr out"
      by (cases "xless (best_score acc) s") (simp_all add: acc2_def acc1_def t0_def Let_def)
    have a2: "all_results acc2 = all_results acc @ [t0]"
      by (simp add: acc2_def acc1_def)
    from Cons.IH[OF l] obtain new where new:
      "\<forall>(i, ps) \<in> set es. \<exists>res. backtest i ps = Inr res"
      "all_results out = all_results acc2 @ new"
      "map params new = map snd (filter (\<lambda>(i, ps). backtest i ps \<noteq> Inr NoTradesExecuted) es)"
      "\<forall>t \<in> set new. \<exists>i. (i, params t) \<in> set es
                 \<and> backtest i (params t) = Inr (Report (result t))
                 \<and> calculate_metric (Report (result t)) metric = Number (score t)"
      by blast
    let ?new = "t0 # new"
    have 1: "all_results out = all_results acc @ ?new" using new(2) a2 by simp
    have 2: "map params ?new
               = map snd (filter (\<lambda>(i, ps). backtest i ps \<noteq> Inr NoTradesExecuted) (e # es))"
      using new(3) e res Report by (simp add: t0_def)
    have 3: "\<forall>t \<in> set ?new. \<exists>j. (j, params t) \<in> set (e # es)
                 \<and> backtest j (params t) = Inr (Report (result t))
                 \<and> calculate_metric (Report (result t)) metric = Number (score t)"
    proof
      fix t assume "t \<in> set ?new"
      then consider "t = t0" | "t \<in> set new" by auto
      then show "\<exists>j. (j, params t) \<in> set (e # es)
                 \<and> backtest j (params t) = Inr (Report (result t))
                 \<and> calculate_metric (Report (result t)) metric = Number (score t)"
      proof cases
        case 1
        with e res Report s show ?thesis by (auto simp: t0_def)
      next
        case 2
        with new(4) show ?thesis by auto
      qed
    qed
    have 0: "\<forall>(i, ps) \<in> set (e # es). \<exists>res. backtest i ps = Inr res"
      using new(1) e res by auto
    from 0 1 2 3 show ?thesis by blast
  qed
qed

lemma xless_NegInf: "xless b s \<Longrightarrow> xless NegInf s \<and> s \<noteq> NaN"
  by (cases b; cases s) simp_all

lemma xless_total: "a \<noteq> NaN \<Longrightarrow> b \<noteq> NaN \<Longrightarrow> \<not> xless a b \<Longrightarrow> b = a \<or> xless b a"
  by (cases a; cases b) auto

lemma best_ok_step:
  fixes acc :: "'v optimization" and ps :: "'v params" and s :: xfloat and r :: report
  assumes "best_ok acc"
  defines "acc1 \<equiv> acc\<lparr>all_results := all_results acc @ [\<lparr>params = ps, score = s, result = r\<rparr>]\<rparr>"
  shows "best_ok (if xless (best_score acc1) s
                  then acc1\<lparr>best_score := s, best_params := Some ps, best_result := Some r\<rparr>
                  else acc1)"
proof (cases "xless (best_score acc) s")
  case True
  let ?rs = "all_results acc"
  from assms(1) have old: "\<forall>t \<in> set ?rs. \<not> xless (best_score acc) (score t)"
    by (simp add: best_ok_def)
  have ub: "\<forall>t \<in> set ?rs. \<not> xless s (score t)"
    using old True xless_trans by blast
  have ne: "\<forall>j < length ?rs. score (?rs ! j) \<noteq> s"
    using old True by (metis nth_mem)
  from xless_NegInf[OF True] have s: "xless NegInf s" "s \<noteq> NaN" by simp_all
  from True ub ne s show ?thesis
    by (auto simp: best_ok_def acc1_def xless_irrefl nth_append
          intro!: exI[of _ "length (all_results acc)"])
next
  case False
  from assms(1) have old: "\<forall>t \<in> set (all_results acc). \<not> xless (best_score acc) (score t)"
    and nn: "best_score acc \<noteq> NaN"
    by (simp_all add: best_ok_def)
  show ?thesis
  proof (cases "best_params acc")
    case None
    with assms(1) False old show ?thesis
      by (auto simp: best_ok_def acc1_def)
  next
    case (Some p)
    with assms(1) obtain k where k: "k < length (all_results acc)"
      "params (all_results acc ! k) = p" "score (all_results acc ! k) = best_score acc"
      "best_result acc = Some (result (all_results acc ! k))"
      "\<forall>j < k. score (all_results acc ! j) \<noteq> best_score acc"
      and above: "xless NegInf (best_score acc)"
      by (auto simp: best_ok_def)
    from k have "k < length (all_results acc1)"
      "params (all_results acc1 ! k) = p" "score (all_results acc1 ! k) = best_score acc1"
      "best_result acc1 = Some (result (all_results acc1 ! k))"
      "\<forall>j < k. score (all_results acc1 ! j) \<noteq> best_score acc1"
      by (simp_all add: acc1_def nth_append)
    moreover have "\<forall>t \<in> set (all_results acc1). \<not> xless (best_score acc1) (score t)"
      using old False by (auto simp: acc1_def)
    moreover have "best_params acc1 = Some p" using Some by (simp add: acc1_def)
    moreover have "\<not> xless (best_score acc1) s" using False by (simp add: acc1_def)
    moreover have "best_score acc1 \<noteq> NaN" "xless NegInf (best_score acc1)"
      using nn above by (simp_all add: acc1_def)
    ultimately show ?thesis by (auto simp: best_ok_def)
  qed
qed

lemma optimize_loop_best_ok:
  "optimize_loop backtest metric acc es = Inr out \<Longrightarrow> best_ok acc \<Longrightarrow> best_ok out"
proof (induction es arbitrary: acc)
  case Nil
  then show ?case by simp
next
  case (Cons e es)
  obtain i ps where e: "e = (i, ps)" by (cases e)
  from Cons.prems e obtain res where res: "backtest i ps = Inr res"
    by (cases "backtest i ps") auto
  show ?case
  proof (cases res)
    case NoTradesExecuted
    with Cons e res show ?thesis by simp
  next
    case (Report r)
    with Cons.prems e res obtain s where s: "calculate_metric (Report r) metric = Number s"
      by (cases "calculate_metric (Report r) metric") auto
    let ?acc1 = "acc\<lparr>all_results := all_results acc @ [\<lparr>params = ps, score = s, result = r\<rparr>]\<rparr>"
    let ?acc2 = "(if xless (best_score ?acc1) s
                  then ?acc1\<lparr>best_score := s, best_params := Some ps, best_result := Some r\<rparr>
                  else ?acc1)"
    from Cons.prems e res Report s
    have l: "optimize_loop backtest metric ?acc2 es = Inr out"
      by (cases "xless (best_score acc) s") (simp_all add: Let_def)
    from best_ok_step[OF Cons.prems(2), of ps s r] have "best_ok ?acc2" .
    from Cons.IH[OF l this] show ?thesis .
  qed
qed

lemma optimize_loop_returns:
  assumes "\<forall>(i, ps) \<in> set es. \<exists>res. backtest i ps = Inr res"
    "\<forall>r. \<exists>s. calculate_metric (Report r) metric = Number s"
  shows "\<exists>out. optimize_loop backtest metric acc es = Inr out"
  using assms(1)
proof (induction es arbitrary: acc)
  case Nil
  show ?case by simp
next
  case (Cons e es)
  obtain i ps where e: "e = (i, ps)" by (cases e)
  from Cons.prems e obtain res where res: "backtest i ps = Inr res" by auto
  from Cons.prems have rest: "\<forall>(i, ps) \<in> set es. \<exists>res. backtest i ps = Inr res" by simp
  show ?case
  proof (cases res)
    case NoTradesExecuted
    with Cons.IH[OF rest, of acc] e res show ?thesis by simp
  next
    case (Report r)
    from assms(2) obtain s where s: "calculate_metric (Report r) metric = Number s" by blast
    with Cons.IH[OF rest] e res Report show ?thesis by (simp add: Let_def)
  qed
qed

lemma optimize_parameters_new:
  assumes "optimize_parameters backtest [] grid metric = Inr out"
  defines "combos \<equiv> generate_parameter_combinations grid"
  shows "(\<forall>i < length combos. \<exists>res. backtest i (combos ! i) = Inr res)
     \<and> map params (all_results out)
         = map snd (filter (\<lambda>(i, ps). backtest i ps \<noteq> Inr NoTradesExecuted)
                      (enumerate 0 combos))
     \<and> length (all_results out)
         = length combos
           - length (filter (\<lambda>(i, ps). backtest i ps = Inr NoTradesExecuted)
                       (enumerate 0 combos))
     \<and> (\<forall>t \<in> set (all_results out). \<exists>i. backtest i (params t) = Inr (Report (result t))
           \<and> calculate_metric (Report (result t)) metric = Number (score t))
     \<and> best_ok out"
proof -
  let ?acc = "\<lparr>best_params = None, best_score = NegInf, best_result = None,
               all_results = []\<rparr> :: 'a optimization"
  let ?es = "enumerate 0 combos"
  let ?P = "\<lambda>(i, ps). backtest i ps \<noteq> Inr NoTradesExecuted"
  from assms have l: "optimize_loop backtest metric ?acc ?es = Inr out"
    by (simp add: optimize_parameters_def)
  from optimize_loop_results[OF l] obtain new where new:
    "\<forall>(i, ps) \<in> set ?es. \<exists>res. backtest i ps = Inr res"
    "all_results out = new"
    "map params new = map snd (filter ?P ?es)"
    "\<forall>t \<in> set new. \<exists>i. (i, params t) \<in> set ?es
                 \<and> backtest i (params t) = Inr (Report (result t))
                 \<and> calculate_metric (Report (result t)) metric = Number (score t)"
    by auto
  have 1: "\<forall>i < length combos. \<exists>res. backtest i (combos ! i) = Inr res"
  proof (intro allI impI)
    fix i assume "i < length combos"
    then have "(i, combos ! i) \<in> set ?es" by (simp add: in_set_enumerate_eq)
    with new(1) show "\<exists>res. backtest i (combos ! i) = Inr res" by blast
  qed
  have "length (all_results out) = length (filter ?P ?es)"
    using new(2,3) by (metis length_map)
  moreover have "filter (\<lambda>x. \<not> ?P x) ?es
                   = filter (\<lambda>(i, ps). backtest i ps = Inr NoTradesExecuted) ?es"
    by (rule filter_cong) auto
  moreover have "length (filter ?P ?es) + length (filter (\<lambda>x. \<not> ?P x) ?es) = length ?es"
    by (rule sum_length_filter_compl)
  ultimately have 3: "length (all_results out)
         = length combos
           - length (filter (\<lambda>(i, ps). backtest i ps = Inr NoTradesExecuted) ?es)"
    by simp
  have "best_ok ?acc" by (simp add: best_ok_def)
  from optimize_loop_best_ok[OF l this] have 5: "best_ok out" .
  from 1 new 3 5 show ?thesis by blast
qed

lemma optimize_parameters_returns:
  assumes "\<forall>i ps. \<exists>res. backtest i ps = Inr res"
    "metric \<noteq> ''trades''" "metric \<noteq> ''equity_curve''"
  shows "\<exists>out. optimize_parameters backtest results grid metric = Inr out"
proof -
  from assms(2,3) have "\<forall>r. \<exists>s. calculate_metric (Report r) metric = Number s"
    using metric_is_number by blast
  moreover from assms(1)
  have "\<forall>(i, ps) \<in> set (enumerate 0 (generate_parameter_combinations grid)).
          \<exists>res. backtest i ps = Inr res" by auto
  ultimately show ?thesis
    unfolding optimize_parameters_def by (rule optimize_loop_returns[rotated])
qed

lemma best_ok_maximum:
  assumes "best_ok out" "all_results out \<noteq> []"
    "\<forall>t \<in> set (all_results out). score t \<noteq> NaN"
  shows "(\<exists>t \<in> set (all_results out). score t = best_score out)
         \<and> (\<forall>t \<in> set (all_results out).
               score t = best_score out \<or> xless (score t) (best_score out))"
proof
  from assms(1) have nn: "best_score out \<noteq> NaN"
    and ub: "\<forall>t \<in> set (all_results out). \<not> xless (best_score out) (score t)"
    by (simp_all add: best_ok_def)
  show le: "\<forall>t \<in> set (all_results out).
               score t = best_score out \<or> xless (score t) (best_score out)"
    using xless_total[OF nn] assms(3) ub by blast
  show "\<exists>t \<in> set (all_results out). score t = best_score out"
  proof (cases "best_params out")
    case None
    with assms(1) have b: "best_score out = NegInf" by (simp add: best_ok_def)
    from assms(2) obtain t where t: "t \<in> set (all_results out)"
      by (cases "all_results out") auto
    with le b have "score t = NegInf \<or> xless (score t) NegInf" by auto
    moreover have "\<not> xless (score t) NegInf" by (cases "score t") simp_all
    ultimately show ?thesis using t b by auto
  next
    case (Some p)
    with assms(1) obtain k where "k < length (all_results out)"
      "score (all_results out ! k) = best_score out"
      by (auto simp: best_ok_def)
    then show ?thesis by (metis nth_mem)
  qed
qed

lemma best_ok_none:
  assumes "best_ok out"
  shows "best_params out = None \<longleftrightarrow> (\<forall>t \<in> set (all_results out). \<not> xless NegInf (score t))"
proof (cases "best_params out")
  case None
  with assms show ?thesis by (auto simp: best_ok_def)
next
  case (Some p)
  with assms obtain k where "k < length (all_results out)"
    "score (all_results out ! k) = best_score out" "xless NegInf (best_score out)"
    by (auto simp: best_ok_def)
  then have "\<exists>t \<in> set (all_results out). xless NegInf (score t)" by (metis nth_mem)
  with Some show ?thesis by auto
qed

text \<open>
  C9, as the code has it. A grid has as many combinations as the product of its
  candidate counts. On a new optimizer (no earlier results), when \<open>optimize_parameters\<close>
  returns, every combination's backtest was run and returned, and the trials returned
  are, in enumeration order, the combinations whose backtest did not return the error
  marker, so their number is N minus the number of error markers, each with the score of
  its own report. If at least one trial is returned and no returned score is NaN,
  \<open>best_score\<close> is the maximum of the returned scores: it is the score of a returned
  trial and every returned score is equal to it or below it. In every case
  \<open>best_score\<close> is not NaN, no returned score is above it, and it is minus infinity or
  the score of a returned trial. There are no best parameters exactly when no returned
  score is above minus infinity, and then \<open>best_score\<close> is minus infinity; otherwise
  the best parameters and result are those of the first returned trial whose score is
  \<open>best_score\<close>. The call returns whenever no backtest raises and the metric is a
  number.
\<close>

theorem grid_search_on_new_optimizer:
  "length (generate_parameter_combinations grid) = prod_list (map (length \<circ> snd) grid)
   \<and> (optimize_parameters backtest [] grid metric = Inr out \<longrightarrow>
        (\<forall>i < length (generate_parameter_combinations grid).
            \<exists>res. backtest i (generate_parameter_combinations grid ! i) = Inr res)
        \<and> map params (all_results out)
            = map snd (filter (\<lambda>(i, ps). backtest i ps \<noteq> Inr NoTradesExecuted)
                         (enumerate 0 (generate_parameter_combinations grid)))
        \<and> length (all_results out)
            = length (generate_parameter_combinations grid)
              - length (filter (\<lambda>(i, ps). backtest i ps = Inr NoTradesExecuted)
                          (enumerate 0 (generate_parameter_combinations grid)))
        \<and> (\<forall>t \<in> set (all_results out).
              \<exists>i. backtest i (params t) = Inr (Report (result t))
                 \<and> calculate_metric (Report (result t)) metric = Number (score t))
        \<and> (all_results out \<noteq> [] \<and> (\<forall>t \<in> set (all_results out). score t \<noteq> NaN) \<longrightarrow>
              (\<exists>t \<in> set (all_results out). score t = best_score out)
              \<and> (\<forall>t \<in> set (all_results out).
                    score t = best_score out \<or> xless (score t) (best_score out)))
        \<and> best_score out \<noteq> NaN
        \<and> (\<forall>t \<in> set (all_results out). \<not> xless (best_score out) (score t))
        \<and> (best_score out = NegInf
            \<or> (\<exists>t \<in> set (all_results out). score t = best_score out))
        \<and> (best_params out = None
              \<longleftrightarrow> (\<forall>t \<in> set (all_results out). \<not> xless NegInf (score t)))
        \<and> (best_params out = None \<longrightarrow> best_score out = NegInf \<and> best_result out = None)
        \<and> (\<forall>p. best_params out = Some p \<longrightarrow>
              xless NegInf (best_score out)
              \<and> (\<exists>k < length (all_results out).
                  params (all_results out ! k) = p
                  \<and> score (all_results out ! k) = best_score out
                  \<and> best_result out = Some (result (all_results out ! k))
                  \<and> (\<forall>j < k. score (all_results out ! j) \<noteq> best_score out))))
   \<and> ((\<forall>i ps. \<exists>res. backtest i ps = Inr res) \<and> metric \<noteq> ''trades''
        \<and> metric \<noteq> ''equity_curve'' \<longrightarrow>
        (\<exists>out'. optimize_parameters backtest [] grid metric = Inr out'))"
proof -
  have A: "length (generate_parameter_combinations grid)
             = prod_list (map (length \<circ> snd) grid)"
    by (rule length_combinations)
  have C: "\<exists>out'. optimize_parameters backtest [] grid metric = Inr out'"
    if "(\<forall>i ps. \<exists>res. backtest i ps = Inr res) \<and> metric \<noteq> ''trades''
        \<and> metric \<noteq> ''equity_curve''"
    using that optimize_parameters_returns by blast
  have B: "(\<forall>i < length (generate_parameter_combinations grid).
            \<exists>res. backtest i (generate_parameter_combinations grid ! i) = Inr res)
        \<and> map params (all_results out)
            = map snd (filter (\<lambda>(i, ps). backtest i ps \<noteq> Inr NoTradesExecuted)
                         (enumerate 0 (generate_parameter_combinations grid)))
        \<and> length (all_results out)
            = length (generate_parameter_combinations grid)
              - length (filter (\<lambda>(i, ps). backtest i ps = Inr NoTradesExecuted)
                          (enumerate 0 (generate_parameter_combinations grid)))
        \<and> (\<forall>t \<in> set (all_results out).
              \<exists>i. backtest i (params t) = Inr (Report (result t))
                 \<and> calculate_metric (Report (result t)) metric = Number (score t))
        \<and> (all_results out \<noteq> [] \<and> (\<forall>t \<in> set (all_results out). score t \<noteq> NaN) \<longrightarrow>
              (\<exists>t \<in> set (all_results out). score t = best_score out)
              \<and> (\<forall>t \<in> set (all_results out).
                    score t = best_score out \<or> xless (score t) (best_score out)))
        \<and> best_score out \<noteq> NaN
        \<and> (\<forall>t \<in> set (all_results out). \<not> xless (best_score out) (score t))
        \<and> (best_score out = NegInf
            \<or> (\<exists>t \<in> set (all_results out). score t = best_score out))
        \<and> (best_params out = None
              \<longleftrightarrow> (\<forall>t \<in> set (all_results out). \<not> xless NegInf (score t)))
        \<and> (best_params out = None \<longrightarrow> best_score out = NegInf \<and> best_result out = None)
        \<and> (\<forall>p. best_params out = Some p \<longrightarrow>
              xless NegInf (best_score out)
              \<and> (\<exists>k < length (all_results out).
                  params (all_results out ! k) = p
                  \<and> score (all_results out ! k) = best_score out
                  \<and> best_result out = Some (result (all_results out ! k))
                  \<and> (\<forall>j < k. score (all_results out ! j) \<noteq> best_score out)))"
    if a: "optimize_parameters backtest [] grid metric = Inr out"
  proof -
    note n = optimize_parameters_new[OF a]
    from n have b: "best_ok out" by blast
    have 1: "\<forall>i < length (generate_parameter_combinations grid).
            \<exists>res. backtest i (generate_parameter_combinations grid ! i) = Inr res"
      using n by blast
    have 2: "map params (all_results out)
            = map snd (filter (\<lambda>(i, ps). backtest i ps \<noteq> Inr NoTradesExecuted)
                         (enumerate 0 (generate_parameter_combinations grid)))"
      using n by blast
    have 3: "length (all_results out)
            = length (generate_parameter_combinations grid)
              - length (filter (\<lambda>(i, ps). backtest i ps = Inr NoTradesExecuted)
                          (enumerate 0 (generate_parameter_combinations grid)))"
      using n by blast
    have 4: "\<forall>t \<in> set (all_results out).
              \<exists>i. backtest i (params t) = Inr (Report (result t))
                 \<and> calculate_metric (Report (result t)) metric = Number (score t)"
      using n by blast
    have 5: "all_results out \<noteq> [] \<and> (\<forall>t \<in> set (all_results out). score t \<noteq> NaN) \<longrightarrow>
              (\<exists>t \<in> set (all_results out). score t = best_score out)
              \<and> (\<forall>t \<in> set (all_results out).
                    score t = best_score out \<or> xless (score t) (best_score out))"
      using best_ok_maximum[OF b] by blast
    have 6: "best_score out \<noteq> NaN" using b by (simp add: best_ok_def)
    have 7: "\<forall>t \<in> set (all_results out). \<not> xless (best_score out) (score t)"
      using b by (simp add: best_ok_def)
    have 10: "best_params out = None \<longrightarrow> best_score out = NegInf \<and> best_result out = None"
      using b by (auto simp: best_ok_def)
    have 11: "\<forall>p. best_params out = Some p \<longrightarrow>
              xless NegInf (best_score out)
              \<and> (\<exists>k < length (all_results out).
                  params (all_results out ! k) = p
                  \<and> score (all_results out ! k) = best_score out
                  \<and> best_result out = Some (result (all_results out ! k))
                  \<and> (\<forall>j < k. score (all_results out ! j) \<noteq> best_score out))"
      using b by (auto simp: best_ok_def)
    have 8: "best_score out = NegInf
            \<or> (\<exists>t \<in> set (all_results out). score t = best_score out)"
    proof (cases "best_params out")
      case None
      with 10 show ?thesis by simp
    next
      case (Some p)
      with 11 obtain k where "k < length (all_results out)"
        "score (all_results out ! k) = best_score out" by blast
      then show ?thesis by (metis nth_mem)
    qed
    have 9: "best_params out = None
              \<longleftrightarrow> (\<forall>t \<in> set (all_results out). \<not> xless NegInf (score t))"
      by (rule best_ok_none[OF b])
    from 1 2 3 4 5 6 7 8 9 10 11 show ?thesis by blast
  qed
  from A B C show ?thesis by blast
qed

lemma example_backtest_report: "example_backtest i ps = Inr (Report example_report_record)"
  by (simp add: example_backtest_def example_report)

lemma example_idle_backtest_result: "example_idle_backtest i ps = Inr NoTradesExecuted"
  by (simp add: example_idle_backtest_def run_backtest_def simulate_def reset_def
        generate_report_def)

lemma example_hold_sum: "b64_add 10000 0 = 10000"
  unfolding b64_add_def
  by (subst b64_round_binade[of 13]) (simp_all add: round_half_even_def)

lemma b64_add_zero: "b64_add 0 0 = 0"
  by (simp add: b64_add_def b64_round_def)

lemma example_breakeven_backtest_report:
  "example_breakeven_backtest i ps = Inr (Report example_breakeven_record)"
  by (simp add: example_breakeven_backtest_def run_backtest_def simulate_def reset_def
        engine_defs example_strategy_def example_config_def example_breakeven_data_def
        example_breakeven_record_def nth_append upt_example example_hold_sum
        generate_report_def calculate_drawdown_def fdiv_def profit_factor_of_def mean_def
        float_sum_def b64_add_zero)

lemmas optimizer_defs = optimize_parameters_def generate_parameter_combinations_def
  calculate_metric_def get_or_zero_def result_get_def

theorem grid_search_on_new_optimizer_witness:
  "optimize_parameters example_backtest [] [(''EMA_FAST'', [9, 12])] ''total_pnl''
     = Inr \<lparr>best_params = Some [(''EMA_FAST'', 9)], best_score = Fin 1498.25,
            best_result = Some example_report_record,
            all_results =
              [\<lparr>params = [(''EMA_FAST'', 9)], score = Fin 1498.25,
                result = example_report_record\<rparr>,
               \<lparr>params = [(''EMA_FAST'', 12)], score = Fin 1498.25,
                result = example_report_record\<rparr>]\<rparr>
   \<and> length (generate_parameter_combinations [(''EMA_FAST'', [9, 12::real])]) = 2"
  using grid_search_on_new_optimizer
          [of "[(''EMA_FAST'', [9, 12])]" example_backtest "''total_pnl''"
              "\<lparr>best_params = Some [(''EMA_FAST'', 9)], best_score = Fin 1498.25,
                best_result = Some example_report_record,
                all_results =
                  [\<lparr>params = [(''EMA_FAST'', 9)], score = Fin 1498.25,
                    result = example_report_record\<rparr>,
                   \<lparr>params = [(''EMA_FAST'', 12)], score = Fin 1498.25,
                    result = example_report_record\<rparr>]\<rparr>"]
  by (simp add: optimizer_defs example_backtest_report example_report_record_def)

text \<open>
  C9 as stated fails in three ways. Used twice: a first search over a grid of one
  combination, scored by \<open>final_balance\<close>, leaves one trial in \<open>self.results\<close>, and a
  second search on the same optimizer over the same grid, scored by \<open>total_pnl\<close>,
  returns two trials for one combination and a \<open>best_score\<close> of 1498.25 although the
  returned trials' scores are 11498.25 and 1498.25. With no trial returned: when the
  only backtest returns the error marker, \<open>best_score\<close> is minus infinity and there is
  no returned score to be the maximum of. With a NaN score: when the only backtest
  breaks even and the metric is \<open>profit_factor\<close>, the one returned score is NaN and
  \<open>best_score\<close> is minus infinity, with no best parameters.
\<close>

theorem optimizer_reuse_counterexample:
  "optimize_parameters example_backtest [] [(''EMA_FAST'', [9])] ''final_balance''
     = Inr \<lparr>best_params = Some [(''EMA_FAST'', 9)], best_score = Fin 11498.25,
            best_result = Some example_report_record,
            all_results =
              [\<lparr>params = [(''EMA_FAST'', 9)], score = Fin 11498.25,
                result = example_report_record\<rparr>]\<rparr>
   \<and> optimize_parameters example_backtest
       [\<lparr>params = [(''EMA_FAST'', 9)], score = Fin 11498.25, result = example_report_record\<rparr>]
       [(''EMA_FAST'', [9])] ''total_pnl''
     = Inr \<lparr>best_params = Some [(''EMA_FAST'', 9)], best_score = Fin 1498.25,
            best_result = Some example_report_record,
            all_results =
              [\<lparr>params = [(''EMA_FAST'', 9)], score = Fin 11498.25,
                result = example_report_record\<rparr>,
               \<lparr>params = [(''EMA_FAST'', 9)], score = Fin 1498.25,
                result = example_report_record\<rparr>]\<rparr>
   \<and> length (generate_parameter_combinations [(''EMA_FAST'', [9::real])]) = 1
   \<and> optimize_parameters example_idle_backtest [] [(''EMA_FAST'', [9])] ''total_pnl''
     = Inr \<lparr>best_params = None, best_score = NegInf, best_result = None,
            all_results = []\<rparr>
   \<and> optimize_parameters example_breakeven_backtest [] [(''EMA_FAST'', [9])]
       ''profit_factor''
     = Inr \<lparr>best_params = None, best_score = NegInf, best_result = None,
            all_results =
              [\<lparr>params = [(''EMA_FAST'', 9)], score = NaN,
                result = example_breakeven_record\<rparr>]\<rparr>"
  by (simp add: optimizer_defs example_backtest_report example_idle_backtest_result
        example_breakeven_backtest_report example_report_record_def
        example_breakeven_record_def)

end
